theory Spec2Isabelle
  imports Complex_Main
begin

section \<open>Numbers and vectors\<close>

text \<open>
  The shaders compute on \<open>f32\<close> and the picker on JavaScript numbers. Both are idealised
  here as exact real numbers: rounding error, infinities and NaN of the shader arithmetic
  are outside the model. WGSL's \<open>vec2<f32>\<close> and \<open>vec3<f32>\<close> are pairs and triples.
\<close>

type_synonym vec2 = "real \<times> real"
type_synonym vec3 = "real \<times> real \<times> real"

fun vx :: "vec3 \<Rightarrow> real" where "vx (x, y, z) = x"
fun vy :: "vec3 \<Rightarrow> real" where "vy (x, y, z) = y"
fun vz :: "vec3 \<Rightarrow> real" where "vz (x, y, z) = z"

fun vadd :: "vec3 \<Rightarrow> vec3 \<Rightarrow> vec3" where
  "vadd (a, b, c) (x, y, z) = (a + x, b + y, c + z)"

fun vsub :: "vec3 \<Rightarrow> vec3 \<Rightarrow> vec3" where
  "vsub (a, b, c) (x, y, z) = (a - x, b - y, c - z)"

fun vscale :: "vec3 \<Rightarrow> real \<Rightarrow> vec3" where
  "vscale (x, y, z) k = (x * k, y * k, z * k)"

fun dot :: "vec3 \<Rightarrow> vec3 \<Rightarrow> real" where
  "dot (a, b, c) (x, y, z) = a * x + b * y + c * z"

fun cross :: "vec3 \<Rightarrow> vec3 \<Rightarrow> vec3" where
  "cross (a, b, c) (x, y, z) = (b * z - c * y, c * x - a * z, a * y - b * x)"

fun length2 :: "vec2 \<Rightarrow> real" where
  "length2 (x, y) = sqrt (x * x + y * y)"

fun length3 :: "vec3 \<Rightarrow> real" where
  "length3 (x, y, z) = sqrt (x * x + y * y + z * z)"

text \<open>\<open>normalize v = v / length(v)\<close>; on the zero vector the division by zero of HOL yields
  the zero vector, where WGSL leaves the result indeterminate.\<close>

definition normalize :: "vec3 \<Rightarrow> vec3" where
  "normalize v = vscale v (1 / length3 v)"

fun vabs :: "vec3 \<Rightarrow> vec3" where
  "vabs (x, y, z) = (\<bar>x\<bar>, \<bar>y\<bar>, \<bar>z\<bar>)"

fun vmax0 :: "vec3 \<Rightarrow> vec3" where
  "vmax0 (x, y, z) = (max x 0, max y 0, max z 0)"


definition mix3 :: "vec3 \<Rightarrow> vec3 \<Rightarrow> real \<Rightarrow> vec3" where
  "mix3 a b t = vadd (vscale a (1 - t)) (vscale b t)"



section \<open>Scene data (the uniform buffer's structs)\<close>

record Sphere =
  sphere_center :: vec3
  sphere_radius :: real
  sphere_color :: vec3

record Box =
  box_center :: vec3
  box_size :: vec3
  box_color :: vec3

record Torus =
  torus_center :: vec3
  torus_radii :: vec2
  torus_color :: vec3

text \<open>
  The three fixed-capacity arrays are functions from the slot index; every loop of the
  shaders reads a slot only under its own capacity bound, so no read is out of range.
  The \<open>u32\<close> counters are natural numbers (the loops count upwards to at most the
  capacity, nothing wraps).
\<close>

record Scene =
  num_spheres :: nat
  num_boxes :: nat
  num_tori :: nat
  spheres :: "nat \<Rightarrow> Sphere"
  boxes :: "nat \<Rightarrow> Box"
  tori :: "nat \<Rightarrow> Torus"


section \<open>raymarch\_basic.wgsl: constants, primitives, operators\<close>

definition MAX_DIST :: real where "MAX_DIST = 100"
definition SURF_DIST :: real where "SURF_DIST = 0.001"
definition MAX_STEPS :: nat where "MAX_STEPS = 256"

definition MAT_PLANE :: real where "MAT_PLANE = 0"
definition MAT_SPHERE :: real where "MAT_SPHERE = 1"
definition MAT_BOX :: real where "MAT_BOX = 2"
definition MAT_TORUS :: real where "MAT_TORUS = 3"

definition MAT_SKY_COLOR :: vec3 where "MAT_SKY_COLOR = (0.7, 0.8, 0.9)"

definition sd_sphere :: "vec3 \<Rightarrow> real \<Rightarrow> real" where
  "sd_sphere p r = length3 p - r"

definition sd_box :: "vec3 \<Rightarrow> vec3 \<Rightarrow> real" where
  "sd_box p b =
     (let q = vsub (vabs p) b
      in length3 (vmax0 q) + min (max (vx q) (max (vy q) (vz q))) 0)"

definition sd_torus :: "vec3 \<Rightarrow> vec2 \<Rightarrow> real" where
  "sd_torus p t =
     (let q = (length2 (vx p, vz p) - fst t, vy p)
      in length2 q - snd t)"

definition sd_plane :: "vec3 \<Rightarrow> vec3 \<Rightarrow> real \<Rightarrow> real" where
  "sd_plane p n h = dot p n + h"

definition op_union :: "real \<Rightarrow> real \<Rightarrow> real" where
  "op_union d1 d2 = min d1 d2"






section \<open>raymarch\_basic.wgsl: the distance field\<close>

text \<open>
  Each of the three loops of \<open>get_dist\<close> has the body
  \<open>if dist < res.x { res = vec2(dist, tag) }\<close>. The step functions below are these
  bodies; the tag of slot \<open>i\<close> is a parameter because the shading shaders and the
  picking shader differ only there. A loop
  \<open>for (var i = 0u; i < scene.num_X && i < CAP; i++)\<close> visits the slots
  \<open>0, ..., min num_X CAP - 1\<close> in order.
\<close>

definition sphere_dist :: "Scene \<Rightarrow> vec3 \<Rightarrow> nat \<Rightarrow> real" where
  "sphere_dist sc p i =
     (let sphere = spheres sc i
      in sd_sphere (vsub p (sphere_center sphere)) (sphere_radius sphere))"

definition box_dist :: "Scene \<Rightarrow> vec3 \<Rightarrow> nat \<Rightarrow> real" where
  "box_dist sc p i =
     (let box = boxes sc i
      in sd_box (vsub p (box_center box)) (box_size box))"

definition torus_dist :: "Scene \<Rightarrow> vec3 \<Rightarrow> nat \<Rightarrow> real" where
  "torus_dist sc p i =
     (let torus = tori sc i
      in sd_torus (vsub p (torus_center torus)) (torus_radii torus))"

definition sphere_step :: "(nat \<Rightarrow> real) \<Rightarrow> Scene \<Rightarrow> vec3 \<Rightarrow> vec2 \<Rightarrow> nat \<Rightarrow> vec2" where
  "sphere_step tag sc p res i =
     (if sphere_dist sc p i < fst res then (sphere_dist sc p i, tag i) else res)"

definition box_step :: "(nat \<Rightarrow> real) \<Rightarrow> Scene \<Rightarrow> vec3 \<Rightarrow> vec2 \<Rightarrow> nat \<Rightarrow> vec2" where
  "box_step tag sc p res i =
     (if box_dist sc p i < fst res then (box_dist sc p i, tag i) else res)"

definition torus_step :: "(nat \<Rightarrow> real) \<Rightarrow> Scene \<Rightarrow> vec3 \<Rightarrow> vec2 \<Rightarrow> nat \<Rightarrow> vec2" where
  "torus_step tag sc p res i =
     (if torus_dist sc p i < fst res then (torus_dist sc p i, tag i) else res)"

definition plane_dist :: "vec3 \<Rightarrow> real" where
  "plane_dist p = sd_plane p (0, 1, 0) 0.5"

text \<open>\<open>get_dist\<close> of raymarch\_basic.wgsl: capacities 3, 2 and 2.\<close>

definition get_dist :: "Scene \<Rightarrow> vec3 \<Rightarrow> vec2" where
  "get_dist sc p =
     (let res0 = (MAX_DIST, - 1);
          res1 = (if plane_dist p < fst res0 then (plane_dist p, MAT_PLANE) else res0);
          res2 = foldl (sphere_step (\<lambda>i. MAT_SPHERE + real i * 0.1) sc p) res1
                   [0 ..< min (num_spheres sc) 3];
          res3 = foldl (box_step (\<lambda>i. MAT_BOX + real i * 0.1) sc p) res2
                   [0 ..< min (num_boxes sc) 2];
          res4 = foldl (torus_step (\<lambda>i. MAT_TORUS + real i * 0.1) sc p) res3
                   [0 ..< min (num_tori sc) 2]
      in res4)"

text \<open>The candidate distances in the order \<open>get_dist\<close> visits them.\<close>

definition candidates :: "Scene \<Rightarrow> vec3 \<Rightarrow> real list" where
  "candidates sc p =
     map (sphere_dist sc p) [0 ..< min (num_spheres sc) 3] @
     map (box_dist sc p) [0 ..< min (num_boxes sc) 2] @
     map (torus_dist sc p) [0 ..< min (num_tori sc) 2]"


section \<open>raymarch\_basic.wgsl: marching, normals, materials, shading\<close>

text \<open>
  The marching loop \<open>for (var i = 0; i < MAX_STEPS; i++)\<close> is a recursion on the number
  of iterations left; \<open>break\<close> returns at once. The distance field is a parameter, so
  that the same loop serves the shaders that differ in \<open>get_dist\<close> only.
\<close>

fun march_loop :: "(vec3 \<Rightarrow> vec2) \<Rightarrow> vec3 \<Rightarrow> vec3 \<Rightarrow> nat \<Rightarrow> real \<Rightarrow> real \<Rightarrow> vec2" where
  "march_loop field ro rd 0 d mat_id = (d, mat_id)"
| "march_loop field ro rd (Suc n) d mat_id =
     (let p = vadd ro (vscale rd d);
          dist_mat = field p;
          d' = d + fst dist_mat;
          mat_id' = snd dist_mat
      in if fst dist_mat < SURF_DIST \<or> d' > MAX_DIST then (d', mat_id')
         else march_loop field ro rd n d' mat_id')"

definition ray_march :: "Scene \<Rightarrow> vec3 \<Rightarrow> vec3 \<Rightarrow> vec2" where
  "ray_march sc ro rd = march_loop (get_dist sc) ro rd MAX_STEPS 0 (- 1)"

definition get_normal :: "Scene \<Rightarrow> vec3 \<Rightarrow> vec3" where
  "get_normal sc p =
     (let e = 0.001;
          n = (fst (get_dist sc (vadd p (e, 0, 0))) - fst (get_dist sc (vsub p (e, 0, 0))),
               fst (get_dist sc (vadd p (0, e, 0))) - fst (get_dist sc (vsub p (0, e, 0))),
               fst (get_dist sc (vadd p (0, 0, e))) - fst (get_dist sc (vsub p (0, 0, e))))
      in normalize n)"

text \<open>WGSL \<open>round\<close> rounds a tie to the even neighbour; \<open>i32(x)\<close> and \<open>u32(x)\<close>
  truncate towards zero (a negative value becomes \<open>0u\<close>); \<open>%\<close> on \<open>i32\<close> is the
  truncated remainder.\<close>

definition wgsl_round :: "real \<Rightarrow> real" where
  "wgsl_round x =
     (if x - of_int \<lfloor>x\<rfloor> = 1 / 2
      then (if even \<lfloor>x\<rfloor> then of_int \<lfloor>x\<rfloor> else of_int (\<lfloor>x\<rfloor> + 1))
      else of_int \<lfloor>x + 1 / 2\<rfloor>)"

definition i32 :: "real \<Rightarrow> int" where
  "i32 x = (if 0 \<le> x then \<lfloor>x\<rfloor> else \<lceil>x\<rceil>)"

definition u32 :: "real \<Rightarrow> nat" where
  "u32 x = nat \<lfloor>x\<rfloor>"

definition i32_rem :: "int \<Rightarrow> int \<Rightarrow> int" where
  "i32_rem a b = sgn a * (\<bar>a\<bar> mod \<bar>b\<bar>)"

definition checkerboard :: "vec3 \<Rightarrow> vec3" where
  "checkerboard p =
     (let checker = of_int \<lfloor>vx p\<rfloor> + of_int \<lfloor>vz p\<rfloor>;
          col1 = (0.9, 0.9, 0.9);
          col2 = (0.2, 0.2, 0.2)
      in if i32_rem (i32 checker) 2 = 0 then col1 else col2)"

text \<open>\<open>get_material_color\<close> of raymarch\_basic.wgsl: a tag in a band is decoded by
  rounding, the slot is checked against the capacity (3, 2, 2), and every other case falls
  through to the grey at the end.\<close>

definition get_material_color :: "Scene \<Rightarrow> real \<Rightarrow> vec3 \<Rightarrow> vec3" where
  "get_material_color sc mat_id p =
     (if mat_id = MAT_PLANE then checkerboard p
      else if mat_id \<ge> MAT_SPHERE \<and> mat_id < MAT_SPHERE + 1 then
        (let offset = mat_id - MAT_SPHERE;
             index = i32 (wgsl_round (offset * 10))
         in if index \<ge> 0 \<and> index < 3 then sphere_color (spheres sc (nat index))
            else (0.5, 0.5, 0.5))
      else if mat_id \<ge> MAT_BOX \<and> mat_id < MAT_BOX + 1 then
        (let offset = mat_id - MAT_BOX;
             index = i32 (wgsl_round (offset * 10))
         in if index \<ge> 0 \<and> index < 2 then box_color (boxes sc (nat index))
            else (0.5, 0.5, 0.5))
      else if mat_id \<ge> MAT_TORUS \<and> mat_id < MAT_TORUS + 1 then
        (let offset = mat_id - MAT_TORUS;
             index = i32 (wgsl_round (offset * 10))
         in if index \<ge> 0 \<and> index < 2 then torus_color (tori sc (nat index))
            else (0.5, 0.5, 0.5))
      else (0.5, 0.5, 0.5))"

fun gamma_correct :: "vec3 \<Rightarrow> vec3" where
  "gamma_correct (r, g, b) = (r powr (1 / 2.2), g powr (1 / 2.2), b powr (1 / 2.2))"

text \<open>The uniforms the fragment shaders read (\<open>time\<close>, \<open>mouse\<close> and \<open>frame\<close> are
  bound but never used in a result).\<close>

record Uniforms =
  resolution :: vec2
  cameraYaw :: real
  cameraPitch :: real
  cameraDistance :: real
  cameraTargetX :: real
  cameraTargetY :: real
  cameraTargetZ :: real

text \<open>The camera set-up is the same text at the head of every \<open>fs_main\<close>; it is
  written once here.\<close>

definition frag_uv :: "Uniforms \<Rightarrow> vec2 \<Rightarrow> vec2" where
  "frag_uv u fragCoord =
     (let m = min (fst (resolution u)) (snd (resolution u))
      in ((fst fragCoord - fst (resolution u) * 0.5) / m,
          (snd fragCoord - snd (resolution u) * 0.5) / m))"

definition cam_target :: "Uniforms \<Rightarrow> vec3" where
  "cam_target u = (cameraTargetX u, cameraTargetY u, cameraTargetZ u)"

definition cam_pos :: "Uniforms \<Rightarrow> vec3" where
  "cam_pos u =
     (let yaw = cameraYaw u; pitch = cameraPitch u; cam_dist = cameraDistance u
      in vadd (vscale (sin yaw * cos pitch, sin pitch, cos yaw * cos pitch) cam_dist)
              (cam_target u))"

definition ray_dir :: "Uniforms \<Rightarrow> vec2 \<Rightarrow> vec3" where
  "ray_dir u uv =
     (let cam_forward = normalize (vsub (cam_target u) (cam_pos u));
          cam_right = normalize (cross cam_forward (0, 1, 0));
          cam_up = cross cam_right cam_forward;
          focal_length = 1.5
      in normalize (vadd (vsub (vscale cam_right (fst uv)) (vscale cam_up (snd uv)))
                         (vscale cam_forward focal_length)))"

text \<open>\<open>fs_main\<close> of raymarch\_basic.wgsl; the result is the colour and the alpha.\<close>

definition fs_main :: "Uniforms \<Rightarrow> Scene \<Rightarrow> vec2 \<Rightarrow> vec3 \<times> real" where
  "fs_main u sc fragCoord =
     (let uv = frag_uv u fragCoord;
          rd = ray_dir u uv;
          result = ray_march sc (cam_pos u) rd
      in if fst result < MAX_DIST then
           (let hit_pos = vadd (cam_pos u) (vscale rd (fst result));
                normal = get_normal sc hit_pos;
                light_pos = (2, 5, - 1);
                light_dir = normalize (vsub light_pos hit_pos);
                diffuse = max (dot normal light_dir) 0;
                shadow_origin = vadd hit_pos (vscale normal 0.01);
                shadow_result = ray_march sc shadow_origin light_dir;
                shadow = (if fst shadow_result > length3 (vsub light_pos shadow_origin)
                          then 1 else 0.3);
                ambient = 0.2;
                albedo = get_material_color sc (snd result) hit_pos;
                phong = vscale albedo (ambient + diffuse * shadow * 0.8);
                fog = exp (- fst result * 0.02);
                color = mix3 MAT_SKY_COLOR phong fog
            in (gamma_correct color, 1))
         else
           (let sky = mix3 MAT_SKY_COLOR (vscale MAT_SKY_COLOR 0.9) (snd uv * 0.5 + 0.5)
            in (gamma_correct sky, 1)))"


section \<open>The buffer-driven shader (capacity 10 per type)\<close>

text \<open>
  The second shading shader of the repository differs from raymarch\_basic.wgsl in the
  loop bounds of \<open>get_dist\<close> (\<open>i < 10u\<close>) and in \<open>get_material_color\<close>, which decodes
  with \<open>floor(x + 0.5)\<close> and checks the slot against the live counters.
\<close>

definition get_dist_buf :: "Scene \<Rightarrow> vec3 \<Rightarrow> vec2" where
  "get_dist_buf sc p =
     (let res0 = (MAX_DIST, - 1);
          res1 = (if plane_dist p < fst res0 then (plane_dist p, MAT_PLANE) else res0);
          res2 = foldl (sphere_step (\<lambda>i. MAT_SPHERE + real i * 0.1) sc p) res1
                   [0 ..< min (num_spheres sc) 10];
          res3 = foldl (box_step (\<lambda>i. MAT_BOX + real i * 0.1) sc p) res2
                   [0 ..< min (num_boxes sc) 10];
          res4 = foldl (torus_step (\<lambda>i. MAT_TORUS + real i * 0.1) sc p) res3
                   [0 ..< min (num_tori sc) 10]
      in res4)"

definition candidates_buf :: "Scene \<Rightarrow> vec3 \<Rightarrow> real list" where
  "candidates_buf sc p =
     map (sphere_dist sc p) [0 ..< min (num_spheres sc) 10] @
     map (box_dist sc p) [0 ..< min (num_boxes sc) 10] @
     map (torus_dist sc p) [0 ..< min (num_tori sc) 10]"

definition get_material_color_buf :: "Scene \<Rightarrow> real \<Rightarrow> vec3 \<Rightarrow> vec3" where
  "get_material_color_buf sc mat_id p =
     (if mat_id < 0 then (0.5, 0.5, 0.5)
      else if mat_id = MAT_PLANE then checkerboard p
      else
        (let sphere_id = of_int \<lfloor>(mat_id - MAT_SPHERE) * 10 + 0.5\<rfloor> :: real;
             box_id = of_int \<lfloor>(mat_id - MAT_BOX) * 10 + 0.5\<rfloor> :: real;
             torus_id = of_int \<lfloor>(mat_id - MAT_TORUS) * 10 + 0.5\<rfloor> :: real
         in if mat_id \<ge> MAT_SPHERE \<and> mat_id < MAT_SPHERE + 1 \<and> sphere_id < real (num_spheres sc)
            then sphere_color (spheres sc (u32 sphere_id))
            else if mat_id \<ge> MAT_BOX \<and> mat_id < MAT_BOX + 1 \<and> box_id < real (num_boxes sc)
            then box_color (boxes sc (u32 box_id))
            else if mat_id \<ge> MAT_TORUS \<and> mat_id < MAT_TORUS + 1 \<and> torus_id < real (num_tori sc)
            then torus_color (tori sc (u32 torus_id))
            else (1, 0, 1)))"


section \<open>id\_pick.wgsl: the identifier pass\<close>

datatype prim_type = SphereT | BoxT | TorusT

text \<open>The identifier \<open>get_dist\<close> writes for slot \<open>i\<close>: \<open>f32(i + 1u)\<close>,
  \<open>f32(i + 11u)\<close>, \<open>f32(i + 21u)\<close>.\<close>

fun pick_id :: "prim_type \<Rightarrow> nat \<Rightarrow> nat" where
  "pick_id SphereT i = i + 1"
| "pick_id BoxT i = i + 11"
| "pick_id TorusT i = i + 21"

definition get_dist_pick :: "Scene \<Rightarrow> vec3 \<Rightarrow> vec2" where
  "get_dist_pick sc p =
     (let res0 = (100, 0);
          res1 = (if plane_dist p < fst res0 then (plane_dist p, 0) else res0);
          res2 = foldl (sphere_step (\<lambda>i. real (pick_id SphereT i)) sc p) res1
                   [0 ..< min (num_spheres sc) 10];
          res3 = foldl (box_step (\<lambda>i. real (pick_id BoxT i)) sc p) res2
                   [0 ..< min (num_boxes sc) 10];
          res4 = foldl (torus_step (\<lambda>i. real (pick_id TorusT i)) sc p) res3
                   [0 ..< min (num_tori sc) 10]
      in res4)"










section \<open>object\_picker.js\<close>

text \<open>
  A picked object is \<open>{ type, index }\<close>. A JavaScript number that may be \<open>NaN\<close> is a
  \<open>real option\<close>; \<open>None\<close> stands for \<open>NaN\<close> and for the \<open>undefined\<close> that a read beyond
  the end of the typed array returns (arithmetic turns it into \<open>NaN\<close>).
\<close>

record Obj =
  otype :: prim_type
  index :: nat

type_synonym jsnum = "real option"
type_synonym jsvec = "jsnum \<times> jsnum \<times> jsnum"

datatype event = ObjectSelected Obj | ObjectMoved Obj jsvec

record DragPlane =
  point :: jsvec
  normal :: vec3

text \<open>
  The picker's fields. \<open>sceneData\<close> is the float array of the scene buffer.
  \<open>idTexture\<close> is the size of the identifier texture, \<open>None\<close> before it exists;
  \<open>idTextureWidth\<close> and \<open>idTextureHeight\<close> are \<open>None\<close> while the fields are
  \<open>undefined\<close> (the constructor does not set them). A registered callback appends to
  \<open>events\<close> when it is called.
\<close>

record Picker =
  sceneData :: "jsnum list"
  selectedObject :: "Obj option"
  dragPlane :: "DragPlane option"
  canvas_width :: nat
  canvas_height :: nat
  idTexture :: "(nat \<times> nat) option"
  idTextureWidth :: "nat option"
  idTextureHeight :: "nat option"
  onObjectSelected :: bool
  onObjectMoved :: bool
  events :: "event list"

text \<open>\<open>decodeID(id)\<close>; the argument is the byte \<open>data[0]\<close>, written \<open>n\<close> here.\<close>

definition decodeID :: "nat \<Rightarrow> Obj option" where
  "decodeID n =
     (if n = 0 then None
      else if n \<ge> 1 \<and> n \<le> 10 then Some \<lparr>otype = SphereT, index = n - 1\<rparr>
      else if n \<ge> 11 \<and> n \<le> 20 then Some \<lparr>otype = BoxT, index = n - 11\<rparr>
      else if n \<ge> 21 \<and> n \<le> 30 then Some \<lparr>otype = TorusT, index = n - 21\<rparr>
      else None)"

definition baseOffset :: "Obj \<Rightarrow> nat" where
  "baseOffset obj =
     (case otype obj of
        SphereT \<Rightarrow> 4 + index obj * 8
      | BoxT \<Rightarrow> 4 + 80 + index obj * 12
      | TorusT \<Rightarrow> 4 + 80 + 120 + index obj * 12)"

text \<open>Reading and writing one element of the typed array: a read beyond the end is
  \<open>undefined\<close>, a write beyond the end is ignored.\<close>

definition sd_read :: "jsnum list \<Rightarrow> nat \<Rightarrow> jsnum" where
  "sd_read xs i = (if i < length xs then xs ! i else None)"

definition sd_write :: "jsnum list \<Rightarrow> nat \<Rightarrow> jsnum \<Rightarrow> jsnum list" where
  "sd_write xs i v = (if i < length xs then xs[i := v] else xs)"

definition getObjectPosition :: "Picker \<Rightarrow> Obj \<Rightarrow> jsvec" where
  "getObjectPosition st obj =
     (sd_read (sceneData st) (baseOffset obj + 0),
      sd_read (sceneData st) (baseOffset obj + 1),
      sd_read (sceneData st) (baseOffset obj + 2))"

fun setObjectPosition :: "Picker \<Rightarrow> Obj \<Rightarrow> jsvec \<Rightarrow> Picker" where
  "setObjectPosition st obj (x, y, z) =
     (let d0 = sd_write (sceneData st) (baseOffset obj + 0) x;
          d1 = sd_write d0 (baseOffset obj + 1) y;
          d2 = sd_write d1 (baseOffset obj + 2) z;
          st' = st\<lparr>sceneData := d2\<rparr>
      in if onObjectMoved st then st'\<lparr>events := events st @ [ObjectMoved obj (x, y, z)]\<rparr>
         else st')"

text \<open>\<open>a + c\<close> and \<open>a - c\<close> for a possibly-\<open>NaN\<close> \<open>a\<close> and a number \<open>c\<close>.\<close>

definition jadd :: "jsnum \<Rightarrow> real \<Rightarrow> jsnum" where
  "jadd a c = map_option (\<lambda>v. v + c) a"

definition jsub :: "jsnum \<Rightarrow> real \<Rightarrow> jsnum" where
  "jsub a c = map_option (\<lambda>v. v - c) a"

text \<open>The \<open>right\<close> vector of \<open>handleDrag\<close>, after the guarded normalisation.\<close>

definition drag_right :: "vec3 \<Rightarrow> vec3" where
  "drag_right cameraDir =
     (let right = (vz cameraDir, 0, - vx cameraDir);
          rightLen = sqrt (vx right * vx right + vz right * vz right)
      in if rightLen > 0.001 then (vx right / rightLen, vy right, vz right / rightLen)
         else right)"

text \<open>\<open>handleDrag\<close> returns the new state and the returned position (\<open>None\<close> for the
  early \<open>return\<close>).\<close>

definition handleDrag :: "Picker \<Rightarrow> real \<Rightarrow> real \<Rightarrow> vec3 \<Rightarrow> vec3 \<Rightarrow> Picker \<times> jsvec option" where
  "handleDrag st deltaX deltaY cameraPos cameraDir =
     (case (selectedObject st, dragPlane st) of
        (Some obj, Some pl) \<Rightarrow>
          (let currentPos = getObjectPosition st obj;
               up = (0, 1, 0);
               right = drag_right cameraDir;
               cameraDistance = sqrt (vx cameraPos * vx cameraPos +
                                      vy cameraPos * vy cameraPos +
                                      vz cameraPos * vz cameraPos);
               sensitivity = 0.002;
               dx = deltaX * sensitivity * cameraDistance;
               dy = deltaY * sensitivity * cameraDistance;
               newPos = (jadd (fst currentPos) (vx right * dx),
                         jsub (fst (snd currentPos)) (vy up * dy),
                         jadd (snd (snd currentPos)) (vz right * dx))
           in (setObjectPosition st obj newPos, Some newPos))
      | _ \<Rightarrow> (st, None))"

text \<open>
  \<open>renderIDPass\<close> recreates the texture at the canvas size when there is none or the
  recorded size differs, and records the size. What the pass draws is the GPU's.
\<close>

definition renderIDPass :: "Picker \<Rightarrow> Picker" where
  "renderIDPass st =
     (let canvasWidth = max 1 (canvas_width st);
          canvasHeight = max 1 (canvas_height st)
      in if idTexture st = None \<or> idTextureWidth st \<noteq> Some canvasWidth
            \<or> idTextureHeight st \<noteq> Some canvasHeight
         then st\<lparr>idTexture := Some (canvasWidth, canvasHeight),
                 idTextureWidth := Some canvasWidth,
                 idTextureHeight := Some canvasHeight\<rparr>
         else st)"

text \<open>\<open>a || b\<close> on a field that is \<open>undefined\<close> or a number: \<open>b\<close> when \<open>a\<close> is
  \<open>undefined\<close> or \<open>0\<close>.\<close>

definition js_or :: "nat option \<Rightarrow> nat \<Rightarrow> nat" where
  "js_or a b = (case a of None \<Rightarrow> b | Some n \<Rightarrow> if n = 0 then b else n)"

definition clampedX :: "Picker \<Rightarrow> real \<Rightarrow> int" where
  "clampedX st x =
     (let texW = max 1 (int (js_or (idTextureWidth st) (canvas_width st)))
      in max 0 (min \<lfloor>x\<rfloor> (texW - 1)))"

definition clampedY :: "Picker \<Rightarrow> real \<Rightarrow> int" where
  "clampedY st y =
     (let texH = max 1 (int (js_or (idTextureHeight st) (canvas_height st)))
      in max 0 (min \<lfloor>y\<rfloor> (texH - 1)))"

datatype pick_error = NoTexture | CopyOutOfBounds

text \<open>
  \<open>readPixel\<close> up to the copy it submits: the texel it reads, or the failure of the copy
  when there is no texture or the one-texel copy at the clamped origin leaves the
  texture. The byte read from the texel is the GPU's.
\<close>

definition readPixel :: "Picker \<Rightarrow> real \<Rightarrow> real \<Rightarrow> pick_error + int \<times> int" where
  "readPixel st x y =
     (case idTexture st of
        None \<Rightarrow> Inl NoTexture
      | Some (w, h) \<Rightarrow>
          if 0 \<le> clampedX st x \<and> clampedX st x < int w \<and>
             0 \<le> clampedY st y \<and> clampedY st y < int h
          then Inr (clampedX st x, clampedY st y)
          else Inl CopyOutOfBounds)"


text \<open>
  \<open>handleClick\<close>: the identifier pass, the readback, the decoding, and the selection.
  The bytes the pass has drawn are the GPU's; \<open>rendered cx cy\<close> is the red byte of the
  texel \<open>(cx, cy)\<close>. The result is the new state and the returned object, or the failure
  of the readback.
\<close>

definition handleClick ::
  "(int \<Rightarrow> int \<Rightarrow> nat) \<Rightarrow> Picker \<Rightarrow> real \<Rightarrow> real \<Rightarrow> vec3 \<Rightarrow> pick_error + Picker \<times> Obj option" where
  "handleClick rendered st x y cameraDir =
     (let st1 = renderIDPass st
      in case readPixel st1 x y of
           Inl e \<Rightarrow> Inl e
         | Inr (cx, cy) \<Rightarrow>
             (case decodeID (rendered cx cy) of
                Some obj \<Rightarrow>
                  (let pos = getObjectPosition st1 obj;
                       st2 = st1\<lparr>selectedObject := Some obj,
                                 dragPlane := Some \<lparr>point = pos, normal = cameraDir\<rparr>\<rparr>
                   in if onObjectSelected st2
                      then Inr (st2\<lparr>events := events st2 @ [ObjectSelected obj]\<rparr>, Some obj)
                      else Inr (st2, Some obj))
              | None \<Rightarrow> Inr (st1\<lparr>selectedObject := None\<rparr>, None)))"


section \<open>The set of active primitives\<close>

text \<open>The primitives \<open>get_dist\<close> of raymarch\_basic.wgsl visits, as a set, and the
  distance of one primitive.\<close>

datatype prim = PSphere Sphere | PBox Box | PTorus Torus

fun prim_dist :: "vec3 \<Rightarrow> prim \<Rightarrow> real" where
  "prim_dist p (PSphere s) = sd_sphere (vsub p (sphere_center s)) (sphere_radius s)"
| "prim_dist p (PBox b) = sd_box (vsub p (box_center b)) (box_size b)"
| "prim_dist p (PTorus t) = sd_torus (vsub p (torus_center t)) (torus_radii t)"

text \<open>A slot is active when its index is below the counter of its type; \<open>get_dist\<close>
  visits the active slots below its capacities 3, 2 and 2, and the buffer-driven
  \<open>get_dist\<close> those below 10.\<close>

definition active_prims :: "Scene \<Rightarrow> prim set" where
  "active_prims sc =
     set (map (\<lambda>i. PSphere (spheres sc i)) [0 ..< min (num_spheres sc) 3]) \<union>
     set (map (\<lambda>i. PBox (boxes sc i)) [0 ..< min (num_boxes sc) 2]) \<union>
     set (map (\<lambda>i. PTorus (tori sc i)) [0 ..< min (num_tori sc) 2])"

definition active_prims_buf :: "Scene \<Rightarrow> prim set" where
  "active_prims_buf sc =
     set (map (\<lambda>i. PSphere (spheres sc i)) [0 ..< min (num_spheres sc) 10]) \<union>
     set (map (\<lambda>i. PBox (boxes sc i)) [0 ..< min (num_boxes sc) 10]) \<union>
     set (map (\<lambda>i. PTorus (tori sc i)) [0 ..< min (num_tori sc) 10])"


section \<open>Slots in visiting order\<close>

text \<open>
  Every \<open>get_dist\<close> visits the active slots in the same order: spheres, boxes, tori,
  each by rising index, below the counter and below the capacity of the shader. The
  definitions of this section describe that order and the slot a sample hits; they are
  what the theorems about the tags are stated with.
\<close>

type_synonym slot = "prim_type \<times> nat"

definition slots :: "nat \<Rightarrow> nat \<Rightarrow> nat \<Rightarrow> Scene \<Rightarrow> slot list" where
  "slots cs cb ct sc =
     map (Pair SphereT) [0 ..< min (num_spheres sc) cs] @
     map (Pair BoxT) [0 ..< min (num_boxes sc) cb] @
     map (Pair TorusT) [0 ..< min (num_tori sc) ct]"

fun slot_dist :: "Scene \<Rightarrow> vec3 \<Rightarrow> slot \<Rightarrow> real" where
  "slot_dist sc p (SphereT, i) = sphere_dist sc p i"
| "slot_dist sc p (BoxT, i) = box_dist sc p i"
| "slot_dist sc p (TorusT, i) = torus_dist sc p i"

fun slot_color :: "Scene \<Rightarrow> slot \<Rightarrow> vec3" where
  "slot_color sc (SphereT, i) = sphere_color (spheres sc i)"
| "slot_color sc (BoxT, i) = box_color (boxes sc i)"
| "slot_color sc (TorusT, i) = torus_color (tori sc i)"

text \<open>The material tag the shading shaders write for a slot.\<close>

fun mat_tag :: "slot \<Rightarrow> real" where
  "mat_tag (SphereT, i) = MAT_SPHERE + real i * 0.1"
| "mat_tag (BoxT, i) = MAT_BOX + real i * 0.1"
| "mat_tag (TorusT, i) = MAT_TORUS + real i * 0.1"

text \<open>The body shared by the loops: a candidate replaces the result when it is strictly
  nearer.\<close>

definition closer :: "vec2 \<Rightarrow> vec2 \<Rightarrow> vec2" where
  "closer res c = (if fst c < fst res then c else res)"

text \<open>
  Slot \<open>s\<close> of the visited slots \<open>sl\<close> is the one a sample at \<open>p\<close> hits: it is nearer than
  the initial distance \<open>d0\<close> and than the plane, strictly nearer than every slot visited
  before it, and no slot visited after it is strictly nearer.
\<close>

definition hit_slot :: "slot list \<Rightarrow> Scene \<Rightarrow> vec3 \<Rightarrow> real \<Rightarrow> slot \<Rightarrow> bool" where
  "hit_slot sl sc p d0 s =
     (s \<in> set sl \<and> slot_dist sc p s < d0 \<and> slot_dist sc p s < plane_dist p \<and>
      (\<forall>e \<in> set (takeWhile (\<lambda>x. x \<noteq> s) sl). slot_dist sc p s < slot_dist sc p e) \<and>
      (\<forall>l \<in> set (tl (dropWhile (\<lambda>x. x \<noteq> s) sl)). slot_dist sc p s \<le> slot_dist sc p l))"


section \<open>The march against the plane alone\<close>

text \<open>
  The distance a march covers in \<open>n\<close> steps from the distance \<open>s\<close> when every step is the
  distance to the ground plane. The march towards a sphere takes such steps for as long
  as the plane is the nearer surface.
\<close>

fun plane_run :: "vec3 \<Rightarrow> vec3 \<Rightarrow> nat \<Rightarrow> real \<Rightarrow> real" where
  "plane_run ro rd 0 s = s"
| "plane_run ro rd (Suc n) s = plane_run ro rd n (s + plane_dist (vadd ro (vscale rd s)))"

definition plane_reach :: "vec3 \<Rightarrow> vec3 \<Rightarrow> nat \<Rightarrow> real" where
  "plane_reach ro rd n = plane_run ro rd n 0"


section \<open>The blend modes of the specification\<close>






section \<open>Example scenes\<close>

definition red_sphere :: "real \<Rightarrow> Sphere" where
  "red_sphere r = \<lparr>sphere_center = (0, 0, 0), sphere_radius = r, sphere_color = (1, 0, 0)\<rparr>"

definition far_sphere :: Sphere where
  "far_sphere = \<lparr>sphere_center = (3, 0, 0), sphere_radius = 1, sphere_color = (0, 1, 0)\<rparr>"

definition some_box :: Box where
  "some_box = \<lparr>box_center = (0, 0, 0), box_size = (1, 1, 1), box_color = (0, 0, 1)\<rparr>"

definition some_torus :: Torus where
  "some_torus = \<lparr>torus_center = (0, 0, 0), torus_radii = (1, 1 / 4), torus_color = (1, 1, 0)\<rparr>"

definition empty_scene :: Scene where
  "empty_scene =
     \<lparr>num_spheres = 0, num_boxes = 0, num_tori = 0,
      spheres = (\<lambda>i. red_sphere 1), boxes = (\<lambda>i. some_box), tori = (\<lambda>i. some_torus)\<rparr>"

definition one_sphere_scene :: "real \<Rightarrow> Scene" where
  "one_sphere_scene r = empty_scene\<lparr>num_spheres := 1, spheres := (\<lambda>i. red_sphere r)\<rparr>"

definition two_spheres_ab :: Scene where
  "two_spheres_ab =
     empty_scene\<lparr>num_spheres := 2,
                 spheres := (\<lambda>i. if i = 0 then red_sphere 1 else far_sphere)\<rparr>"

definition two_spheres_ba :: Scene where
  "two_spheres_ba =
     empty_scene\<lparr>num_spheres := 2,
                 spheres := (\<lambda>i. if i = 0 then far_sphere else red_sphere 1)\<rparr>"


text \<open>A unit box ten units above the origin, alone in the scene, and a camera five
  units in front of it that looks at it horizontally, on a 2 by 2 canvas.\<close>

definition high_box :: Box where
  "high_box = \<lparr>box_center = (0, 10, 0), box_size = (1, 1, 1), box_color = (0, 0, 1)\<rparr>"

definition box_scene :: Scene where
  "box_scene = empty_scene\<lparr>num_boxes := 1, boxes := (\<lambda>i. high_box)\<rparr>"


definition far_box :: Box where
  "far_box = \<lparr>box_center = (0, 0, 3), box_size = (1, 1, 1), box_color = (0, 1, 1)\<rparr>"

definition far_torus :: Torus where
  "far_torus = \<lparr>torus_center = (0, 3, 0), torus_radii = (1, 1 / 4), torus_color = (1 / 2, 0, 0)\<rparr>"

definition two_of_each :: Scene where
  "two_of_each =
     \<lparr>num_spheres = 2, num_boxes = 2, num_tori = 2,
      spheres = (\<lambda>i. if i = 0 then red_sphere 1 else far_sphere),
      boxes = (\<lambda>i. if i = 0 then some_box else far_box),
      tori = (\<lambda>i. if i = 0 then some_torus else far_torus)\<rparr>"


text \<open>A camera one unit in front of a target high above the ground, looking
  horizontally, on a 2 by 2 canvas.\<close>

definition high_camera :: Uniforms where
  "high_camera =
     \<lparr>resolution = (2, 2), cameraYaw = 0, cameraPitch = 0, cameraDistance = 1,
      cameraTargetX = 0, cameraTargetY = 1000, cameraTargetZ = 0\<rparr>"


text \<open>
  A picker with sphere slot 0 selected and its centre at \<open>(1, 2, 3)\<close> (entries 4, 5, 6
  of the buffer), the same picker with nothing selected, and the forward vector of a
  camera that looks almost straight down (a unit vector).
\<close>

definition sphere0 :: Obj where
  "sphere0 = \<lparr>otype = SphereT, index = 0\<rparr>"

definition steep_dir :: vec3 where
  "steep_dir = (8000 / 16000001, - (15999999 / 16000001), 0)"

definition drag_state :: Picker where
  "drag_state =
     \<lparr>sceneData = [Some 1, Some 0, Some 0, Some 0,
                   Some 1, Some 2, Some 3, Some 1, Some 1, Some 0, Some 0, Some 0],
      selectedObject = Some sphere0,
      dragPlane = Some \<lparr>point = (Some 1, Some 2, Some 3), normal = (0, 0, - 1)\<rparr>,
      canvas_width = 800, canvas_height = 600,
      idTexture = None, idTextureWidth = None, idTextureHeight = None,
      onObjectSelected = False, onObjectMoved = True, events = []\<rparr>"

definition idle_state :: Picker where
  "idle_state = drag_state\<lparr>selectedObject := None, dragPlane := None\<rparr>"

text \<open>The drag formula of the specification, with \<open>right\<close> normalised
  unconditionally: \<open>old + right * dx' - up * dy'\<close>.\<close>

definition spec_drag_position :: "vec3 \<Rightarrow> real \<Rightarrow> real \<Rightarrow> vec3 \<Rightarrow> vec3 \<Rightarrow> vec3" where
  "spec_drag_position old deltaX deltaY cameraPos cameraDir =
     (let right = normalize (vz cameraDir, 0, - vx cameraDir);
          up = (0, 1, 0);
          sensitivity = 0.002;
          cameraDistance = length3 cameraPos;
          dx' = deltaX * sensitivity * cameraDistance;
          dy' = deltaY * sensitivity * cameraDistance
      in vsub (vadd old (vscale right dx')) (vscale up dy'))"


text \<open>
  The constructor leaves \<open>idTextureWidth\<close> and \<open>idTextureHeight\<close> unset, and
  \<open>renderIDPass\<close> is the only function that sets them, together with the texture. In
  every state the picker reaches through them the recorded size, once set, is the size
  of the texture.
\<close>

definition size_record_ok :: "Picker \<Rightarrow> bool" where
  "size_record_ok st =
     (case (idTextureWidth st, idTextureHeight st) of
        (None, None) \<Rightarrow> True
      | (Some w, Some h) \<Rightarrow> idTexture st = Some (w, h)
      | _ \<Rightarrow> False)"


section \<open>Scenes of the specification\<close>





text \<open>A ray origin just above the ground plane, \<open>0.01\<close> over it and about 49 units from
  the world origin: the ray towards the origin rises away from the plane.\<close>

definition grazing_origin :: vec3 where
  "grazing_origin = (0, - (49 / 100), 1959951 / 40000)"


section \<open>Facts about the distance field\<close>

lemma fst_foldl_sphere_step:
  "fst (foldl (sphere_step tag sc p) res xs) = foldl op_union (fst res) (map (sphere_dist sc p) xs)"
  by (induction xs arbitrary: res) (simp_all add: sphere_step_def op_union_def min_def)

lemma fst_foldl_box_step:
  "fst (foldl (box_step tag sc p) res xs) = foldl op_union (fst res) (map (box_dist sc p) xs)"
  by (induction xs arbitrary: res) (simp_all add: box_step_def op_union_def min_def)

lemma fst_foldl_torus_step:
  "fst (foldl (torus_step tag sc p) res xs) = foldl op_union (fst res) (map (torus_dist sc p) xs)"
  by (induction xs arbitrary: res) (simp_all add: torus_step_def op_union_def min_def)

lemma fst_get_dist_foldl:
  "fst (get_dist sc p) = foldl op_union MAX_DIST (plane_dist p # candidates sc p)"
  unfolding get_dist_def candidates_def Let_def
  by (simp add: fst_foldl_torus_step fst_foldl_box_step fst_foldl_sphere_step
      if_distrib [of fst]) (simp add: op_union_def min_def)

text \<open>The same for the buffer-driven shader, with its capacity 10.\<close>

lemma fst_get_dist_buf_foldl:
  "fst (get_dist_buf sc p) = foldl op_union MAX_DIST (plane_dist p # candidates_buf sc p)"
  unfolding get_dist_buf_def candidates_buf_def Let_def
  by (simp add: fst_foldl_torus_step fst_foldl_box_step fst_foldl_sphere_step
      if_distrib [of fst]) (simp add: op_union_def min_def)

section \<open>The loops as one scan of the slots\<close>

lemma foldl_sphere_step_closer:
  "foldl (sphere_step (\<lambda>i. tagf (SphereT, i)) sc p) res xs
     = foldl closer res (map (\<lambda>s. (slot_dist sc p s, tagf s)) (map (Pair SphereT) xs))"
  by (induction xs arbitrary: res) (simp_all add: sphere_step_def closer_def)

lemma foldl_box_step_closer:
  "foldl (box_step (\<lambda>i. tagf (BoxT, i)) sc p) res xs
     = foldl closer res (map (\<lambda>s. (slot_dist sc p s, tagf s)) (map (Pair BoxT) xs))"
  by (induction xs arbitrary: res) (simp_all add: box_step_def closer_def)

lemma foldl_torus_step_closer:
  "foldl (torus_step (\<lambda>i. tagf (TorusT, i)) sc p) res xs
     = foldl closer res (map (\<lambda>s. (slot_dist sc p s, tagf s)) (map (Pair TorusT) xs))"
  by (induction xs arbitrary: res) (simp_all add: torus_step_def closer_def)

lemma scan_slots:
  "foldl (torus_step (\<lambda>i. tagf (TorusT, i)) sc p)
     (foldl (box_step (\<lambda>i. tagf (BoxT, i)) sc p)
        (foldl (sphere_step (\<lambda>i. tagf (SphereT, i)) sc p) res
           [0 ..< min (num_spheres sc) cs])
        [0 ..< min (num_boxes sc) cb])
     [0 ..< min (num_tori sc) ct]
   = foldl closer res (map (\<lambda>s. (slot_dist sc p s, tagf s)) (slots cs cb ct sc))"
  by (simp only: foldl_sphere_step_closer foldl_box_step_closer foldl_torus_step_closer
      slots_def map_append foldl_append)

text \<open>Each \<open>get_dist\<close> is the scan of its slots with the body \<open>closer\<close>, from its
  initial value and the plane.\<close>

lemma get_dist_scan:
  "get_dist sc p =
     foldl closer (closer (MAX_DIST, - 1) (plane_dist p, MAT_PLANE))
       (map (\<lambda>s. (slot_dist sc p s, mat_tag s)) (slots 3 2 2 sc))"
proof -
  have "get_dist sc p =
      foldl (torus_step (\<lambda>i. mat_tag (TorusT, i)) sc p)
        (foldl (box_step (\<lambda>i. mat_tag (BoxT, i)) sc p)
           (foldl (sphere_step (\<lambda>i. mat_tag (SphereT, i)) sc p)
              (closer (MAX_DIST, - 1) (plane_dist p, MAT_PLANE))
              [0 ..< min (num_spheres sc) 3])
           [0 ..< min (num_boxes sc) 2])
        [0 ..< min (num_tori sc) 2]"
    by (simp add: get_dist_def closer_def)
  then show ?thesis
    by (simp only: scan_slots)
qed

lemma get_dist_buf_scan:
  "get_dist_buf sc p =
     foldl closer (closer (MAX_DIST, - 1) (plane_dist p, MAT_PLANE))
       (map (\<lambda>s. (slot_dist sc p s, mat_tag s)) (slots 10 10 10 sc))"
proof -
  have "get_dist_buf sc p =
      foldl (torus_step (\<lambda>i. mat_tag (TorusT, i)) sc p)
        (foldl (box_step (\<lambda>i. mat_tag (BoxT, i)) sc p)
           (foldl (sphere_step (\<lambda>i. mat_tag (SphereT, i)) sc p)
              (closer (MAX_DIST, - 1) (plane_dist p, MAT_PLANE))
              [0 ..< min (num_spheres sc) 10])
           [0 ..< min (num_boxes sc) 10])
        [0 ..< min (num_tori sc) 10]"
    by (simp add: get_dist_buf_def closer_def)
  then show ?thesis
    by (simp only: scan_slots)
qed


lemma foldl_closer_above:
  "a < fst res \<Longrightarrow> \<forall>e \<in> set xs. a < fst e \<Longrightarrow> a < fst (foldl closer res xs)"
  by (induction xs arbitrary: res) (simp_all add: closer_def)

lemma foldl_closer_keep:
  "\<forall>l \<in> set xs. fst c \<le> fst l \<Longrightarrow> foldl closer c xs = c"
  by (induction xs) (simp_all add: closer_def)

lemma foldl_closer_hit:
  assumes "s \<in> set sl" and "f s < fst res"
    and "\<forall>e \<in> set (takeWhile (\<lambda>x. x \<noteq> s) sl). f s < f e"
    and "\<forall>l \<in> set (tl (dropWhile (\<lambda>x. x \<noteq> s) sl)). f s \<le> f l"
  shows "foldl closer res (map (\<lambda>x. (f x, t x)) sl) = (f s, t s)"
proof -
  let ?pre = "takeWhile (\<lambda>x. x \<noteq> s) sl" and ?rest = "dropWhile (\<lambda>x. x \<noteq> s) sl"
  have ne: "?rest \<noteq> []"
    using assms(1) by (simp add: dropWhile_eq_Nil_conv)
  then have "\<not> (hd ?rest \<noteq> s)"
    by (rule hd_dropWhile)
  then have rest: "?rest = s # tl ?rest"
    using ne by (cases ?rest) simp_all
  have split: "sl = ?pre @ s # tl ?rest"
    using takeWhile_dropWhile_id [of "\<lambda>x. x \<noteq> s" sl] rest by simp
  let ?mid = "foldl closer res (map (\<lambda>x. (f x, t x)) ?pre)"
  have "f s < fst ?mid"
    using assms(2,3) by (intro foldl_closer_above) simp_all
  then have step: "closer ?mid (f s, t s) = (f s, t s)"
    by (simp add: closer_def)
  have keep: "foldl closer (f s, t s) (map (\<lambda>x. (f x, t x)) (tl ?rest)) = (f s, t s)"
    using assms(4) by (intro foldl_closer_keep) simp
  have "foldl closer res (map (\<lambda>x. (f x, t x)) (?pre @ s # tl ?rest)) = (f s, t s)"
    by (simp add: step keep)
  with split show ?thesis
    by simp
qed

text \<open>A sample that hits a slot evaluates to the distance and the tag of that slot.\<close>

lemma hit_slot_scan:
  assumes "hit_slot sl sc p d0 s"
  shows "foldl closer (closer (d0, t0) (plane_dist p, tp))
           (map (\<lambda>x. (slot_dist sc p x, tagf x)) sl) = (slot_dist sc p s, tagf s)"
proof (rule foldl_closer_hit)
  show "s \<in> set sl"
    using assms by (simp add: hit_slot_def)
  show "slot_dist sc p s < fst (closer (d0, t0) (plane_dist p, tp))"
    using assms by (simp add: hit_slot_def closer_def)
  show "\<forall>e \<in> set (takeWhile (\<lambda>x. x \<noteq> s) sl). slot_dist sc p s < slot_dist sc p e"
    using assms by (simp add: hit_slot_def)
  show "\<forall>l \<in> set (tl (dropWhile (\<lambda>x. x \<noteq> s) sl)). slot_dist sc p s \<le> slot_dist sc p l"
    using assms by (simp add: hit_slot_def)
qed

lemma slots_active:
  "(ty, i) \<in> set (slots cs cb ct sc) \<Longrightarrow>
     (ty = SphereT \<longrightarrow> i < num_spheres sc \<and> i < cs) \<and>
     (ty = BoxT \<longrightarrow> i < num_boxes sc \<and> i < cb) \<and>
     (ty = TorusT \<longrightarrow> i < num_tori sc \<and> i < ct)"
  by (auto simp: slots_def)

section \<open>Identifiers as bytes and tags\<close>







section \<open>No active primitive\<close>

text \<open>
  Claim C8, as the code has it. With the three counters at zero, \<open>get_dist\<close> returns the
  ground plane (distance \<open>dot(p, up) + 0.5\<close>, tag \<open>MAT_PLANE\<close>) at every point whose plane
  distance is below \<open>MAX_DIST\<close>; at the other points (\<open>p.y \<ge> 99.5\<close>) it returns the
  initial value \<open>(MAX_DIST, -1)\<close>, because the plane only replaces the initial value when
  it is strictly nearer.
\<close>

theorem get_dist_zero_counts:
  "num_spheres sc = 0 \<and> num_boxes sc = 0 \<and> num_tori sc = 0 \<longrightarrow>
     get_dist sc p =
       (if dot p (0, 1, 0) + 0.5 < MAX_DIST then (dot p (0, 1, 0) + 0.5, MAT_PLANE)
        else (MAX_DIST, - 1))"
  by (cases p) (simp add: get_dist_def plane_dist_def sd_plane_def)

theorem get_dist_zero_counts_witness:
  "num_spheres empty_scene = 0 \<and> num_boxes empty_scene = 0 \<and> num_tori empty_scene = 0 \<and>
   get_dist empty_scene (1, 2, 3) = (5 / 2, MAT_PLANE)"
  using get_dist_zero_counts [of empty_scene "(1, 2, 3)"]
  by (simp add: empty_scene_def MAX_DIST_def)

text \<open>The buffer-driven shader does the same; the identifier pass starts from
  \<open>(100, 0)\<close> and tags the plane with \<open>0\<close> as well.\<close>

lemma get_dist_buf_zero_counts:
  "num_spheres sc = 0 \<Longrightarrow> num_boxes sc = 0 \<Longrightarrow> num_tori sc = 0 \<Longrightarrow>
   get_dist_buf sc p =
     (if plane_dist p < MAX_DIST then (plane_dist p, MAT_PLANE) else (MAX_DIST, - 1))"
  by (simp add: get_dist_buf_def)

lemma get_dist_pick_zero_counts:
  "num_spheres sc = 0 \<Longrightarrow> num_boxes sc = 0 \<Longrightarrow> num_tori sc = 0 \<Longrightarrow>
   get_dist_pick sc p = (min (plane_dist p) 100, 0)"
  by (simp add: get_dist_pick_def min_def)

text \<open>The claim as stated fails high above the ground: at \<open>(0, 100, 0)\<close> the plane
  distance is \<open>100.5\<close>, and the empty scene evaluates to \<open>(MAX_DIST, -1)\<close>.\<close>

theorem get_dist_zero_counts_counterexample:
  "num_spheres empty_scene = 0 \<and> num_boxes empty_scene = 0 \<and> num_tori empty_scene = 0 \<and>
   get_dist empty_scene (0, 100, 0) = (100, - 1) \<and>
   get_dist empty_scene (0, 100, 0) \<noteq> (dot (0, 100, 0) (0, 1, 0) + 0.5, MAT_PLANE)"
  by (simp add: get_dist_def empty_scene_def plane_dist_def sd_plane_def MAX_DIST_def)

section \<open>The distance depends on the set of active primitives only\<close>

lemma foldl_op_union_Min: "foldl op_union a xs = Min (set (a # xs))"
proof -
  have "foldl op_union a xs = fold min xs a"
    by (induction xs arbitrary: a) (simp_all add: op_union_def min.commute)
  then show ?thesis
    by (simp only: Min.set_eq_fold)
qed

lemma set_candidates: "set (candidates sc p) = prim_dist p ` active_prims sc"
  by (simp add: candidates_def active_prims_def image_Un image_image
      sphere_dist_def box_dist_def torus_dist_def Let_def Un_assoc)

lemma fst_get_dist_Min:
  "fst (get_dist sc p) =
     Min (insert MAX_DIST (insert (plane_dist p) (prim_dist p ` active_prims sc)))"
  by (simp only: fst_get_dist_foldl foldl_op_union_Min set_candidates list.set)

lemma set_candidates_buf: "set (candidates_buf sc p) = prim_dist p ` active_prims_buf sc"
  by (simp add: candidates_buf_def active_prims_buf_def image_Un image_image
      sphere_dist_def box_dist_def torus_dist_def Let_def Un_assoc)

lemma fst_get_dist_buf_Min:
  "fst (get_dist_buf sc p) =
     Min (insert MAX_DIST (insert (plane_dist p) (prim_dist p ` active_prims_buf sc)))"
  by (simp only: fst_get_dist_buf_foldl foldl_op_union_Min set_candidates_buf list.set)

lemma get_dist_buf_order_independent:
  "active_prims_buf sc1 = active_prims_buf sc2 \<Longrightarrow>
   fst (get_dist_buf sc1 p) = fst (get_dist_buf sc2 p)"
  by (simp only: fst_get_dist_buf_Min)

text \<open>
  Claim C5. Two scenes with the same set of active primitives (the primitives in the
  slots \<open>get_dist\<close> visits), stored in whatever order, have the same distance at every
  point. Every primitive is combined by union; the scene stores no other mode.
\<close>

theorem get_dist_order_independent:
  "active_prims sc1 = active_prims sc2 \<Longrightarrow> fst (get_dist sc1 p) = fst (get_dist sc2 p)"
  by (simp only: fst_get_dist_Min)

lemma active_prims_two_spheres:
  "active_prims two_spheres_ab = {PSphere (red_sphere 1), PSphere far_sphere}"
  "active_prims two_spheres_ba = {PSphere (red_sphere 1), PSphere far_sphere}"
proof -
  have upt: "{0 ..< 2::nat} = {0, 1}"
    by auto
  show "active_prims two_spheres_ab = {PSphere (red_sphere 1), PSphere far_sphere}"
    by (simp add: active_prims_def two_spheres_ab_def empty_scene_def upt)
  show "active_prims two_spheres_ba = {PSphere (red_sphere 1), PSphere far_sphere}"
    by (simp add: active_prims_def two_spheres_ba_def empty_scene_def upt insert_commute)
qed

theorem get_dist_order_independent_witness:
  "active_prims two_spheres_ab = active_prims two_spheres_ba \<and>
   spheres two_spheres_ab 0 \<noteq> spheres two_spheres_ba 0 \<and>
   fst (get_dist two_spheres_ab (1, 0, 0)) = fst (get_dist two_spheres_ba (1, 0, 0))"
proof -
  have same: "active_prims two_spheres_ab = active_prims two_spheres_ba"
    by (simp only: active_prims_two_spheres)
  have differ: "spheres two_spheres_ab 0 \<noteq> spheres two_spheres_ba 0"
    by (simp add: two_spheres_ab_def two_spheres_ba_def red_sphere_def far_sphere_def)
  from same differ get_dist_order_independent [OF same, of "(1, 0, 0)"]
  show ?thesis by simp
qed

section \<open>Vectors and the first steps of a march\<close>

lemma length3_vscale: "length3 (vscale v k) = \<bar>k\<bar> * length3 v"
proof (cases v)
  case (fields x y z)
  have "x * k * (x * k) + y * k * (y * k) + z * k * (z * k) = k\<^sup>2 * (x * x + y * y + z * z)"
    by (simp add: power2_eq_square algebra_simps)
  then show ?thesis
    using fields by (simp add: real_sqrt_mult)
qed

lemma length3_axis_y: "length3 (0, y, 0) = \<bar>y\<bar>"
  by simp

lemma length3_neg: "length3 (vsub (0, 0, 0) v) = length3 v"
  by (cases v) simp

lemma vsub_zero: "vsub p (0, 0, 0) = p"
  by (cases p) simp

text \<open>In a scene whose only primitive is a sphere of radius \<open>r\<close> at the origin, a sample
  where the sphere is strictly nearer than the plane and than \<open>MAX_DIST\<close> evaluates to the
  sphere.\<close>

lemma get_dist_single_sphere:
  assumes "num_spheres sc = 1" "num_boxes sc = 0" "num_tori sc = 0"
    and "sphere_center (spheres sc 0) = (0, 0, 0)" "sphere_radius (spheres sc 0) = r"
    and "length3 p - r < plane_dist p" "length3 p - r < MAX_DIST"
  shows "get_dist sc p = (length3 p - r, MAT_SPHERE)"
proof -
  have sd: "sphere_dist sc p 0 = length3 p - r"
    using assms(4,5) by (simp add: sphere_dist_def sd_sphere_def vsub_zero)
  have "get_dist sc p =
      sphere_step (\<lambda>i. MAT_SPHERE + real i * 0.1) sc p
        (if plane_dist p < MAX_DIST then (plane_dist p, MAT_PLANE) else (MAX_DIST, - 1)) 0"
    using assms(1-3) by (simp add: get_dist_def)
  also have "\<dots> = (length3 p - r, MAT_SPHERE)"
    using assms(6,7) by (simp add: sphere_step_def sd)
  finally show ?thesis .
qed


lemma march_loop_two_far_steps:
  assumes first: "field ro = (MAX_DIST, m)"
    and second: "field (vadd ro (vscale rd MAX_DIST)) = (MAX_DIST, m')"
  shows "march_loop field ro rd (Suc (Suc n)) 0 m0 = (2 * MAX_DIST, m')"
proof -
  have ro: "vadd ro (vscale rd 0) = ro"
    by (cases ro; cases rd) simp
  show ?thesis
    by (simp add: ro first second Let_def) (simp add: SURF_DIST_def MAX_DIST_def)
qed

section \<open>Shading\<close>

text \<open>
  Claim C6, as the code has it. The pixel is determined by the result \<open>(t, tag)\<close> of the
  march along the pixel's ray. On a miss (\<open>t \<ge> MAX_DIST\<close>) it is the gamma-corrected
  blend of the sky colour and 0.9 times the sky colour, weighted by \<open>uv.y * 0.5 + 0.5\<close>.
  On a hit it is the gamma correction (exponent \<open>1 / 2.2\<close>) of the mix of the sky colour
  and \<open>albedo * (0.2 + diffuse * shadow * 0.8)\<close>, weighted by the fog factor
  \<open>exp(-t * 0.02)\<close>; \<open>shadow\<close> is 1 when the march of the shadow ray, started \<open>0.01\<close>
  along the normal, returns a distance strictly greater than the distance to the light,
  and 0.3 otherwise.
\<close>

theorem fs_main_shading:
  "fs_main u sc fragCoord =
     (let uv = frag_uv u fragCoord;
          ro = cam_pos u;
          rd = ray_dir u uv;
          t = fst (ray_march sc ro rd);
          tag = snd (ray_march sc ro rd)
      in if t \<ge> MAX_DIST then
           (gamma_correct (mix3 MAT_SKY_COLOR (vscale MAT_SKY_COLOR 0.9) (snd uv * 0.5 + 0.5)), 1)
         else
           (let hit_pos = vadd ro (vscale rd t);
                normal = get_normal sc hit_pos;
                light_pos = (2, 5, - 1);
                light_dir = normalize (vsub light_pos hit_pos);
                diffuse = max (dot normal light_dir) 0;
                shadow_origin = vadd hit_pos (vscale normal 0.01);
                shadow = (if fst (ray_march sc shadow_origin light_dir)
                               > length3 (vsub light_pos shadow_origin)
                          then 1 else 0.3);
                albedo = get_material_color sc tag hit_pos
            in (gamma_correct
                  (mix3 MAT_SKY_COLOR (vscale albedo (0.2 + diffuse * shadow * 0.8))
                     (exp (- t * 0.02))), 1))) \<and>
   gamma_correct (r, g, b) = (r powr (1 / 2.2), g powr (1 / 2.2), b powr (1 / 2.2)) \<and>
   mix3 c1 c2 w = vadd (vscale c1 (1 - w)) (vscale c2 w)"
  by (simp add: fs_main_def Let_def mix3_def not_le)

lemma length3_axis_z: "length3 (0, 0, z) = \<bar>z\<bar>"
  by simp

lemma length3_axis_x: "length3 (x, 0, 0) = \<bar>x\<bar>"
  by simp

lemma high_camera_ray:
  "frag_uv high_camera (1, 1) = (0, 0)"
  "cam_pos high_camera = (0, 1000, 1)"
  "ray_dir high_camera (0, 0) = (0, 0, - 1)"
proof -
  show "frag_uv high_camera (1, 1) = (0, 0)"
    by (simp add: frag_uv_def high_camera_def)
  show pos: "cam_pos high_camera = (0, 1000, 1)"
    by (simp add: cam_pos_def cam_target_def high_camera_def)
  have fwd: "normalize (vsub (cam_target high_camera) (cam_pos high_camera)) = (0, 0, - 1)"
    unfolding pos
    by (simp add: cam_target_def high_camera_def normalize_def length3_axis_z del: length3.simps)
  have right: "normalize (cross (0, 0, - 1) (0, 1, 0)) = (1, 0, 0)"
    by (simp add: normalize_def length3_axis_x del: length3.simps)
  show "ray_dir high_camera (0, 0) = (0, 0, - 1)"
    unfolding ray_dir_def Let_def fwd right
    by (simp add: normalize_def length3_axis_z del: length3.simps)
qed

lemma high_camera_march:
  "ray_march empty_scene (0, 1000, 1) (0, 0, - 1) = (200, - 1)"
proof -
  have g: "get_dist empty_scene (0, 1000, z) = (MAX_DIST, - 1)" for z
    by (simp add: get_dist_def empty_scene_def plane_dist_def sd_plane_def MAX_DIST_def)
  have steps: "MAX_STEPS = Suc (Suc 254)"
    by (simp add: MAX_STEPS_def)
  have "march_loop (get_dist empty_scene) (0, 1000, 1) (0, 0, - 1) (Suc (Suc 254)) 0 (- 1)
          = (2 * MAX_DIST, - 1)"
    by (rule march_loop_two_far_steps) (simp_all add: g)
  then show ?thesis
    unfolding ray_march_def steps by (simp add: MAX_DIST_def)
qed

text \<open>
  The claim as stated fails on a miss: the sky blend is gamma-corrected as well. Seen
  from the camera high above the empty scene, the march of the centre pixel misses, the
  blend has the red component \<open>0.665\<close>, and the pixel has \<open>0.665\<close> to the power
  \<open>1 / 2.2\<close>, which is greater.
\<close>

theorem fs_main_sky_counterexample:
  "MAX_DIST \<le> fst (ray_march empty_scene (cam_pos high_camera)
                     (ray_dir high_camera (frag_uv high_camera (1, 1)))) \<and>
   fst (fs_main high_camera empty_scene (1, 1)) \<noteq>
     mix3 MAT_SKY_COLOR (vscale MAT_SKY_COLOR 0.9) (snd (frag_uv high_camera (1, 1)) * 0.5 + 0.5)"
proof -
  have blend: "mix3 MAT_SKY_COLOR (vscale MAT_SKY_COLOR 0.9) (0 * 0.5 + 0.5)
                 = (0.665, 0.76, 0.855)"
    by (simp add: mix3_def MAT_SKY_COLOR_def)
  have pix: "fs_main high_camera empty_scene (1, 1) = (gamma_correct (0.665, 0.76, 0.855), 1)"
    unfolding fs_main_def Let_def high_camera_ray high_camera_march
    by (simp add: MAX_DIST_def blend [simplified])
  have "(0.665::real) powr 1 < 0.665 powr (1 / 2.2)"
    by (rule powr_less_mono') simp_all
  then have "(0.665::real) powr (1 / 2.2) \<noteq> 0.665"
    by simp
  then have "fst (fs_main high_camera empty_scene (1, 1)) \<noteq> (0.665, 0.76, 0.855)"
    unfolding pix by simp
  then show ?thesis
    unfolding high_camera_ray high_camera_march
    by (simp add: MAX_DIST_def blend [simplified])
qed

section \<open>Dragging\<close>

lemma sd_write_length: "length (sd_write xs i v) = length xs"
  by (simp add: sd_write_def)

lemma sd_write_other: "j \<noteq> i \<Longrightarrow> sd_write xs i v ! j = xs ! j"
  by (simp add: sd_write_def)

lemma sd_read_write_same: "i < length xs \<Longrightarrow> sd_read (sd_write xs i v) i = v"
  by (simp add: sd_read_def sd_write_def)

lemma sd_read_write_other: "j \<noteq> i \<Longrightarrow> sd_read (sd_write xs i v) j = sd_read xs j"
  by (simp add: sd_read_def sd_write_def)

lemma sd_read_Some: "sd_read xs i = Some v \<Longrightarrow> i < length xs"
  by (simp add: sd_read_def split: if_splits)

lemma sceneData_setObjectPosition:
  "sceneData (setObjectPosition st obj (x, y, z)) =
     sd_write (sd_write (sd_write (sceneData st) (baseOffset obj) x) (baseOffset obj + 1) y)
       (baseOffset obj + 2) z"
  by (simp add: Let_def)

lemma setObjectPosition_frame:
  "length (sceneData (setObjectPosition st obj pos)) = length (sceneData st)"
  "i \<noteq> baseOffset obj \<Longrightarrow> i \<noteq> baseOffset obj + 1 \<Longrightarrow> i \<noteq> baseOffset obj + 2 \<Longrightarrow>
     sceneData (setObjectPosition st obj pos) ! i = sceneData st ! i"
  by (cases pos; simp add: sceneData_setObjectPosition sd_write_length sd_write_other
      del: setObjectPosition.simps)+

lemma getObjectPosition_setObjectPosition:
  assumes "baseOffset obj + 2 < length (sceneData st)"
  shows "getObjectPosition (setObjectPosition st obj (x, y, z)) obj = (x, y, z)"
  using assms
  by (simp add: getObjectPosition_def sceneData_setObjectPosition sd_read_write_same
      sd_read_write_other sd_write_length del: setObjectPosition.simps)

lemma handleDrag_selected:
  assumes "selectedObject st = Some obj" "dragPlane st = Some pl"
  shows "handleDrag st deltaX deltaY cameraPos cameraDir =
     (let currentPos = getObjectPosition st obj;
          right = drag_right cameraDir;
          dx = deltaX * 0.002 * length3 cameraPos;
          dy = deltaY * 0.002 * length3 cameraPos;
          newPos = (jadd (fst currentPos) (vx right * dx),
                    jsub (fst (snd currentPos)) (1 * dy),
                    jadd (snd (snd currentPos)) (vz right * dx))
      in (setObjectPosition st obj newPos, Some newPos))"
  using assms by (cases cameraPos) (simp add: handleDrag_def Let_def)

lemma handleDrag_idle:
  "selectedObject st = None \<or> dragPlane st = None \<Longrightarrow>
   handleDrag st deltaX deltaY cameraPos cameraDir = (st, None)"
  by (auto simp: handleDrag_def split: option.splits)

lemma drag_right_eq:
  "drag_right cameraDir =
     (if length3 (vz cameraDir, 0, - vx cameraDir) > 0.001
      then normalize (vz cameraDir, 0, - vx cameraDir)
      else (vz cameraDir, 0, - vx cameraDir))"
  by (cases cameraDir) (simp add: drag_right_def normalize_def Let_def)

text \<open>
  Claim C7, as the code has it. With an object selected and a drag plane recorded, and
  the object's centre \<open>(x, y, z)\<close> in the buffer, \<open>handleDrag\<close> writes back and returns
  exactly \<open>old + right * dx' - up * dy'\<close>, where \<open>up = (0, 1, 0)\<close>,
  \<open>dx' = deltaX * 0.002 * |cameraPos|\<close>, \<open>dy' = deltaY * 0.002 * |cameraPos|\<close>, and
  \<open>right\<close> is \<open>(cameraDir.z, 0, -cameraDir.x)\<close>, normalised when its length exceeds
  \<open>0.001\<close> and left as it is otherwise.
\<close>

theorem handleDrag_position:
  assumes "selectedObject st = Some obj" "dragPlane st = Some pl"
    and "getObjectPosition st obj = (Some x, Some y, Some z)"
  shows
    "(let right = (if length3 (vz cameraDir, 0, - vx cameraDir) > 0.001
                   then normalize (vz cameraDir, 0, - vx cameraDir)
                   else (vz cameraDir, 0, - vx cameraDir));
          up = (0, 1, 0);
          dx' = deltaX * 0.002 * length3 cameraPos;
          dy' = deltaY * 0.002 * length3 cameraPos;
          newPos = vsub (vadd (x, y, z) (vscale right dx')) (vscale up dy')
      in snd (handleDrag st deltaX deltaY cameraPos cameraDir)
           = Some (Some (vx newPos), Some (vy newPos), Some (vz newPos)) \<and>
         getObjectPosition (fst (handleDrag st deltaX deltaY cameraPos cameraDir)) obj
           = (Some (vx newPos), Some (vy newPos), Some (vz newPos)))"
proof -
  have "sd_read (sceneData st) (baseOffset obj + 2) = Some z"
    using assms(3) by (simp add: getObjectPosition_def)
  then have inside: "baseOffset obj + 2 < length (sceneData st)"
    by (rule sd_read_Some)
  obtain rx ry rz where r: "drag_right cameraDir = (rx, ry, rz)"
    by (cases "drag_right cameraDir")
  have ry: "ry = 0"
    using r by (cases cameraDir) (simp add: drag_right_def Let_def split: if_splits)
  show ?thesis
    unfolding handleDrag_selected [OF assms(1,2)] drag_right_eq [symmetric] Let_def assms(3) r
    by (simp add: getObjectPosition_setObjectPosition [OF inside] jadd_def jsub_def ry
        del: setObjectPosition.simps)
qed

theorem handleDrag_position_witness:
  "selectedObject drag_state = Some sphere0 \<and>
   dragPlane drag_state = Some \<lparr>point = (Some 1, Some 2, Some 3), normal = (0, 0, - 1)\<rparr> \<and>
   getObjectPosition drag_state sphere0 = (Some 1, Some 2, Some 3) \<and>
   snd (handleDrag drag_state 10 0 (0, 0, 5) (0, 0, - 1)) = Some (Some (9 / 10), Some 2, Some 3) \<and>
   getObjectPosition (fst (handleDrag drag_state 10 0 (0, 0, 5) (0, 0, - 1))) sphere0
     = (Some (9 / 10), Some 2, Some 3)"
proof -
  have h1: "selectedObject drag_state = Some sphere0"
    and h2: "dragPlane drag_state = Some \<lparr>point = (Some 1, Some 2, Some 3), normal = (0, 0, - 1)\<rparr>"
    by (simp_all add: drag_state_def)
  have h3: "getObjectPosition drag_state sphere0 = (Some 1, Some 2, Some 3)"
    by (simp add: getObjectPosition_def drag_state_def sphere0_def baseOffset_def sd_read_def)
  have len: "length3 (0, 0, 5) = 5" "length3 (- 1, 0, 0) = 1"
    by simp_all
  from handleDrag_position [OF h1 h2 h3, of "(0, 0, - 1)" 10 "(0, 0, 5)" 0]
  have "snd (handleDrag drag_state 10 0 (0, 0, 5) (0, 0, - 1))
          = Some (Some (9 / 10), Some 2, Some 3) \<and>
        getObjectPosition (fst (handleDrag drag_state 10 0 (0, 0, 5) (0, 0, - 1))) sphere0
          = (Some (9 / 10), Some 2, Some 3)"
    by (simp add: len normalize_def Let_def del: length3.simps)
  with h1 h2 h3 show ?thesis
    by (simp only: simp_thms)
qed

text \<open>
  The claim as stated, with \<open>right\<close> always normalised, fails when the camera looks almost
  straight down. For the unit forward vector \<open>steep_dir\<close> the flattened vector has length
  \<open>8000 / 16000001 < 0.001\<close> and is used as it is: a drag by \<open>deltaX = 10\<close> at camera
  distance 5 moves the sphere by \<open>800 / 16000001\<close> along \<open>-z\<close>, where the normalised
  vector would move it by \<open>10 * 0.002 * 5 = 0.1\<close>.
\<close>

theorem handleDrag_unnormalised_counterexample:
  "selectedObject drag_state = Some sphere0 \<and>
   dragPlane drag_state \<noteq> None \<and>
   getObjectPosition drag_state sphere0 = (Some 1, Some 2, Some 3) \<and>
   length3 steep_dir = 1 \<and>
   snd (handleDrag drag_state 10 0 (0, 5, 0) steep_dir)
     = Some (Some 1, Some 2, Some (3 - 800 / 16000001)) \<and>
   spec_drag_position (1, 2, 3) 10 0 (0, 5, 0) steep_dir = (1, 2, 3 - 1 / 10) \<and>
   snd (handleDrag drag_state 10 0 (0, 5, 0) steep_dir)
     \<noteq> Some (Some (vx (spec_drag_position (1, 2, 3) 10 0 (0, 5, 0) steep_dir)),
              Some (vy (spec_drag_position (1, 2, 3) 10 0 (0, 5, 0) steep_dir)),
              Some (vz (spec_drag_position (1, 2, 3) 10 0 (0, 5, 0) steep_dir)))"
proof -
  have h1: "selectedObject drag_state = Some sphere0"
    and h2: "dragPlane drag_state = Some \<lparr>point = (Some 1, Some 2, Some 3), normal = (0, 0, - 1)\<rparr>"
    by (simp_all add: drag_state_def)
  have h3: "getObjectPosition drag_state sphere0 = (Some 1, Some 2, Some 3)"
    by (simp add: getObjectPosition_def drag_state_def sphere0_def baseOffset_def sd_read_def)
  have unit: "length3 steep_dir = 1"
    by (simp add: steep_dir_def)
  have flat: "(vz steep_dir, 0, - vx steep_dir) = (0, 0, - (8000 / 16000001))"
    by (simp add: steep_dir_def)
  have len: "length3 (0, 0, - (8000 / 16000001)) = 8000 / 16000001" "length3 (0, 5, 0) = 5"
    by (simp_all add: length3_axis_z length3_axis_y del: length3.simps)
  have right: "drag_right steep_dir = (0, 0, - (8000 / 16000001))"
    unfolding drag_right_eq flat by (simp add: len del: length3.simps)
  have code: "snd (handleDrag drag_state 10 0 (0, 5, 0) steep_dir)
                = Some (Some 1, Some 2, Some (3 - 800 / 16000001))"
    unfolding handleDrag_selected [OF h1 h2] Let_def h3 right
    by (simp add: len jadd_def jsub_def del: length3.simps setObjectPosition.simps)
  have spec: "spec_drag_position (1, 2, 3) 10 0 (0, 5, 0) steep_dir = (1, 2, 3 - 1 / 10)"
    unfolding spec_drag_position_def Let_def flat normalize_def
    by (simp add: len del: length3.simps)
  from h1 h2 h3 unit code spec show ?thesis
    by simp
qed


section \<open>What a drag changes\<close>

lemma baseOffset_eq:
  "baseOffset \<lparr>otype = SphereT, index = i\<rparr> = 4 + i * 8"
  "baseOffset \<lparr>otype = BoxT, index = i\<rparr> = 4 + 80 + i * 12"
  "baseOffset \<lparr>otype = TorusT, index = i\<rparr> = 4 + 80 + 120 + i * 12"
  by (simp_all add: baseOffset_def)

text \<open>
  Claim C10. A call of \<open>handleDrag\<close> keeps the length of \<open>sceneData\<close> and changes at most
  the three consecutive entries at the offset of the selected object (\<open>4 + 8 i\<close> for a
  sphere, \<open>84 + 12 i\<close> for a box, \<open>204 + 12 i\<close> for a torus); every other entry is
  unchanged. With no object selected or no drag plane recorded, the whole picker state
  is unchanged and nothing is returned.
\<close>

theorem handleDrag_frame:
  "length (sceneData (fst (handleDrag st deltaX deltaY cameraPos cameraDir)))
     = length (sceneData st) \<and>
   (selectedObject st = Some obj \<and>
      j \<noteq> baseOffset obj \<and> j \<noteq> baseOffset obj + 1 \<and> j \<noteq> baseOffset obj + 2 \<longrightarrow>
      sceneData (fst (handleDrag st deltaX deltaY cameraPos cameraDir)) ! j = sceneData st ! j) \<and>
   (selectedObject st = None \<or> dragPlane st = None \<longrightarrow>
      handleDrag st deltaX deltaY cameraPos cameraDir = (st, None)) \<and>
   baseOffset \<lparr>otype = SphereT, index = i\<rparr> = 4 + i * 8 \<and>
   baseOffset \<lparr>otype = BoxT, index = i\<rparr> = 4 + 80 + i * 12 \<and>
   baseOffset \<lparr>otype = TorusT, index = i\<rparr> = 4 + 80 + 120 + i * 12"
proof (cases "selectedObject st = None \<or> dragPlane st = None")
  case True
  then have "handleDrag st deltaX deltaY cameraPos cameraDir = (st, None)"
    by (rule handleDrag_idle)
  then show ?thesis
    by (simp add: baseOffset_eq)
next
  case False
  then obtain o' pl where sel: "selectedObject st = Some o'" "dragPlane st = Some pl"
    by auto
  show ?thesis
    unfolding handleDrag_selected [OF sel] Let_def
    using sel
    by (auto simp: setObjectPosition_frame baseOffset_eq simp del: setObjectPosition.simps)
qed

theorem handleDrag_frame_witness:
  "selectedObject drag_state = Some sphere0 \<and>
   (7::nat) \<noteq> baseOffset sphere0 \<and> 7 \<noteq> baseOffset sphere0 + 1 \<and> 7 \<noteq> baseOffset sphere0 + 2 \<and>
   sceneData (fst (handleDrag drag_state 10 4 (0, 0, 5) (0, 0, - 1))) ! 7 = Some 1 \<and>
   length (sceneData (fst (handleDrag drag_state 10 4 (0, 0, 5) (0, 0, - 1)))) = 12 \<and>
   selectedObject idle_state = None \<and>
   handleDrag idle_state 10 4 (0, 0, 5) (0, 0, - 1) = (idle_state, None)"
proof -
  have h1: "selectedObject drag_state = Some sphere0"
    by (simp add: drag_state_def)
  have h2: "(7::nat) \<noteq> baseOffset sphere0 \<and> 7 \<noteq> baseOffset sphere0 + 1 \<and> 7 \<noteq> baseOffset sphere0 + 2"
    by (simp add: baseOffset_def sphere0_def)
  have h3: "selectedObject idle_state = None"
    by (simp add: idle_state_def)
  have d: "sceneData drag_state ! 7 = Some 1" "length (sceneData drag_state) = 12"
    by (simp_all add: drag_state_def)
  from handleDrag_frame [of drag_state 10 4 "(0, 0, 5)" "(0, 0, - 1)" sphere0 7]
    handleDrag_frame [of idle_state 10 4 "(0, 0, 5)" "(0, 0, - 1)"]
    h1 h2 h3 d
  show ?thesis
    by simp
qed


section \<open>The readback coordinate\<close>

lemma clamped_bounds:
  "0 \<le> clampedX st x"
  "clampedX st x \<le> max 1 (int (js_or (idTextureWidth st) (canvas_width st))) - 1"
  "0 \<le> clampedY st y"
  "clampedY st y \<le> max 1 (int (js_or (idTextureHeight st) (canvas_height st))) - 1"
  by (auto simp: clampedX_def clampedY_def Let_def max_def min_def)

lemma size_record_ok_renderIDPass:
  "size_record_ok st \<Longrightarrow> size_record_ok (renderIDPass st)"
  by (auto simp: size_record_ok_def renderIDPass_def Let_def split: option.splits)

lemma size_record_ok_resize:
  "size_record_ok st \<Longrightarrow> size_record_ok (st\<lparr>canvas_width := w, canvas_height := h\<rparr>)"
  by (simp add: size_record_ok_def split: option.splits)

lemma renderIDPass_texture:
  assumes "size_record_ok st"
  shows "idTexture (renderIDPass st) = Some (max 1 (canvas_width st), max 1 (canvas_height st))"
    and "idTextureWidth (renderIDPass st) = Some (max 1 (canvas_width st))"
    and "idTextureHeight (renderIDPass st) = Some (max 1 (canvas_height st))"
    and "canvas_width (renderIDPass st) = canvas_width st"
    and "canvas_height (renderIDPass st) = canvas_height st"
  using assms by (auto simp: renderIDPass_def Let_def size_record_ok_def split: option.splits)

lemma clamped_after_renderIDPass:
  assumes "size_record_ok st"
  shows "clampedX (renderIDPass st) x = max 0 (min \<lfloor>x\<rfloor> (int (max 1 (canvas_width st)) - 1))"
    and "clampedY (renderIDPass st) y = max 0 (min \<lfloor>y\<rfloor> (int (max 1 (canvas_height st)) - 1))"
  by (simp_all add: clampedX_def clampedY_def Let_def renderIDPass_texture [OF assms]
      js_or_def max_def)

text \<open>
  Claim C9. In a picker whose recorded texture size, if any, is the size of its texture,
  \<open>renderIDPass\<close> (which \<open>handleClick\<close> runs before every readback) leaves a texture of
  some size \<open>w\<close> by \<open>h\<close>, and for every coordinate \<open>(x, y)\<close> \<open>readPixel\<close> then copies the
  texel at \<open>(max 0 (min \<lfloor>x\<rfloor> (w - 1)), max 0 (min \<lfloor>y\<rfloor> (h - 1)))\<close>, which lies in
  \<open>[0, w - 1] \<times> [0, h - 1]\<close>: the copy never leaves the texture, and the readback of
  \<open>handleClick\<close> never fails, whatever the coordinate and whatever the pass has drawn.
\<close>

theorem readPixel_clamped:
  assumes "size_record_ok st"
  shows "(\<exists>w h. idTexture (renderIDPass st) = Some (w, h) \<and>
     readPixel (renderIDPass st) x y
       = Inr (max 0 (min \<lfloor>x\<rfloor> (int w - 1)), max 0 (min \<lfloor>y\<rfloor> (int h - 1))) \<and>
     0 \<le> max 0 (min \<lfloor>x\<rfloor> (int w - 1)) \<and> max 0 (min \<lfloor>x\<rfloor> (int w - 1)) \<le> int w - 1 \<and>
     0 \<le> max 0 (min \<lfloor>y\<rfloor> (int h - 1)) \<and> max 0 (min \<lfloor>y\<rfloor> (int h - 1)) \<le> int h - 1) \<and>
   (\<exists>st' obj. handleClick rendered st x y cameraDir = Inr (st', obj))"
proof -
  let ?w = "max 1 (canvas_width st)" and ?h = "max 1 (canvas_height st)"
  have copy: "readPixel (renderIDPass st) x y
       = Inr (max 0 (min \<lfloor>x\<rfloor> (int ?w - 1)), max 0 (min \<lfloor>y\<rfloor> (int ?h - 1)))"
    unfolding readPixel_def renderIDPass_texture [OF assms] clamped_after_renderIDPass [OF assms]
    by (auto simp: max_def min_def)
  have inside: "max 0 (min \<lfloor>x\<rfloor> (int ?w - 1)) \<le> int ?w - 1"
    "max 0 (min \<lfloor>y\<rfloor> (int ?h - 1)) \<le> int ?h - 1"
    by (auto simp: max_def min_def)
  have click: "\<exists>st' obj. handleClick rendered st x y cameraDir = Inr (st', obj)"
    unfolding handleClick_def Let_def copy
    by (simp split: option.split)
  from copy inside have
    "idTexture (renderIDPass st) = Some (?w, ?h) \<and>
     readPixel (renderIDPass st) x y
       = Inr (max 0 (min \<lfloor>x\<rfloor> (int ?w - 1)), max 0 (min \<lfloor>y\<rfloor> (int ?h - 1))) \<and>
     0 \<le> max 0 (min \<lfloor>x\<rfloor> (int ?w - 1)) \<and> max 0 (min \<lfloor>x\<rfloor> (int ?w - 1)) \<le> int ?w - 1 \<and>
     0 \<le> max 0 (min \<lfloor>y\<rfloor> (int ?h - 1)) \<and> max 0 (min \<lfloor>y\<rfloor> (int ?h - 1)) \<le> int ?h - 1"
    by (simp add: renderIDPass_texture [OF assms])
  then show ?thesis
    using click by blast
qed

theorem readPixel_clamped_witness:
  "size_record_ok drag_state \<and>
   idTexture (renderIDPass drag_state) = Some (800, 600) \<and>
   readPixel (renderIDPass drag_state) (- 5) 10000 = Inr (0, 599) \<and>
   readPixel (renderIDPass drag_state) (1234 / 10) (17 / 2) = Inr (123, 8)"
proof -
  have ok: "size_record_ok drag_state"
    by (simp add: size_record_ok_def drag_state_def)
  have t: "idTexture (renderIDPass drag_state) = Some (800, 600)"
    unfolding renderIDPass_texture [OF ok] by (simp add: drag_state_def)
  from readPixel_clamped [OF ok, of "- 5" 10000]
    readPixel_clamped [OF ok, of "1234 / 10" "17 / 2"]
  show ?thesis
    unfolding t using ok by simp
qed

text \<open>The invariant holds when the picker is constructed (nothing is recorded) and is
  kept by \<open>renderIDPass\<close>, by \<open>handleClick\<close>, by \<open>handleDrag\<close> and by a resize of the
  canvas.\<close>

lemma size_record_ok_fresh:
  "idTextureWidth st = None \<Longrightarrow> idTextureHeight st = None \<Longrightarrow> size_record_ok st"
  by (simp add: size_record_ok_def)

lemma size_record_ok_handleClick:
  assumes "size_record_ok st" "handleClick rendered st x y cameraDir = Inr (st', obj)"
  shows "size_record_ok st'"
proof -
  have "size_record_ok (renderIDPass st)"
    using assms(1) by (rule size_record_ok_renderIDPass)
  then show ?thesis
    using assms(2)
    by (auto simp: handleClick_def Let_def size_record_ok_def
        split: sum.splits option.splits if_splits prod.splits)
qed

lemma size_record_ok_handleDrag:
  assumes "size_record_ok st"
  shows "size_record_ok (fst (handleDrag st deltaX deltaY cameraPos cameraDir))"
proof (cases "selectedObject st = None \<or> dragPlane st = None")
  case True
  then show ?thesis
    using assms by (simp add: handleDrag_idle)
next
  case False
  then obtain o' pl where sel: "selectedObject st = Some o'" "dragPlane st = Some pl"
    by auto
  have keep: "size_record_ok (setObjectPosition st o' pos)" for pos
    using assms by (cases pos) (auto simp: size_record_ok_def Let_def split: option.splits)
  show ?thesis
    unfolding handleDrag_selected [OF sel] Let_def
    by (simp add: keep del: setObjectPosition.simps)
qed

section \<open>The identifier pass and its decoding\<close>













text \<open>The two samples of the march from the camera onto the box: five units in front
  of its centre, and on its face.\<close>

lemma box_scene_dist:
  "slot_dist box_scene (0, 10, 5) (BoxT, 0) = 4"
  "slot_dist box_scene (0, 10, 1) (BoxT, 0) = 0"
  by (simp_all add: box_dist_def sd_box_def box_scene_def empty_scene_def high_box_def
      length3_axis_z del: length3.simps)

lemma box_scene_slots:
  "slots 10 10 10 box_scene = [(BoxT, 0)]"
  "slots 3 2 2 box_scene = [(BoxT, 0)]"
  by (simp_all add: slots_def box_scene_def empty_scene_def)

lemma box_scene_hit:
  "hit_slot (slots 10 10 10 box_scene) box_scene (0, 10, 5) 100 (BoxT, 0)"
  "hit_slot (slots 10 10 10 box_scene) box_scene (0, 10, 1) 100 (BoxT, 0)"
  "hit_slot (slots 3 2 2 box_scene) box_scene (0, 10, 5) MAX_DIST (BoxT, 0)"
  "hit_slot (slots 3 2 2 box_scene) box_scene (0, 10, 1) MAX_DIST (BoxT, 0)"
  by (simp_all add: hit_slot_def box_scene_slots box_scene_dist plane_dist_def sd_plane_def
      MAX_DIST_def del: slot_dist.simps)

lemma get_dist_hit:
  assumes "hit_slot (slots 3 2 2 sc) sc p MAX_DIST s"
  shows "get_dist sc p = (slot_dist sc p s, mat_tag s)"
  unfolding get_dist_scan by (rule hit_slot_scan [OF assms])

lemma get_dist_buf_hit:
  assumes "hit_slot (slots 10 10 10 sc) sc p MAX_DIST s"
  shows "get_dist_buf sc p = (slot_dist sc p s, mat_tag s)"
  unfolding get_dist_buf_scan by (rule hit_slot_scan [OF assms])



section \<open>Material tags\<close>

lemma wgsl_round_near:
  assumes "\<bar>e\<bar> < 1 / 2"
  shows "wgsl_round (real n + e) = real n"
proof -
  have half: "\<lfloor>real n + e + 1 / 2\<rfloor> = int n"
    using assms by (simp add: floor_eq_iff; linarith?)
  have tie: "real n + e - of_int \<lfloor>real n + e\<rfloor> \<noteq> 1 / 2"
  proof (cases "0 \<le> e")
    case True
    then have "\<lfloor>real n + e\<rfloor> = int n"
      using assms by (simp add: floor_eq_iff; linarith?)
    then show ?thesis
      using assms by simp
  next
    case False
    then have "\<lfloor>real n + e\<rfloor> = int n - 1"
      using assms by (simp add: floor_eq_iff; linarith?)
    then show ?thesis
      using assms by simp
  qed
  show ?thesis
    using tie half by (simp add: wgsl_round_def)
qed

lemma i32_nat: "i32 (real n) = int n"
  by (simp add: i32_def)

text \<open>Rounding ten times the offset recovers the slot from any tag within half a step
  (\<open>0.05\<close>) of \<open>base + i * 0.1\<close>; both shaders' ways of rounding do.\<close>

lemma tag_decode:
  assumes "\<bar>\<delta>\<bar> < 1 / 20"
  shows "i32 (wgsl_round ((b + real i * 0.1 + \<delta> - b) * 10)) = int i"
    and "\<lfloor>(b + real i * 0.1 + \<delta> - b) * 10 + 0.5\<rfloor> = int i"
proof -
  have x: "(b + real i * 0.1 + \<delta> - b) * 10 = real i + 10 * \<delta>"
    by (simp add: algebra_simps)
  have small: "\<bar>10 * \<delta>\<bar> < 1 / 2"
    using assms by simp
  show "i32 (wgsl_round ((b + real i * 0.1 + \<delta> - b) * 10)) = int i"
    unfolding x by (simp only: wgsl_round_near [OF small] i32_nat)
  show "\<lfloor>(b + real i * 0.1 + \<delta> - b) * 10 + 0.5\<rfloor> = int i"
    unfolding x using small by (simp add: floor_eq_iff; linarith?)
qed

lemma mat_tag_inj:
  assumes "i < 10" "j < 10" "mat_tag (ty, i) = mat_tag (ty', j)"
  shows "ty = ty' \<and> i = j"
proof -
  have "real i * 0.1 < 1" "real j * 0.1 < 1"
    using assms(1,2) by simp_all
  then show ?thesis
    using assms(3)
    by (cases ty; cases ty') (simp_all add: MAT_SPHERE_def MAT_BOX_def MAT_TORUS_def)
qed

text \<open>The colour lookups on a tag within half a step of the tag of a slot.\<close>

lemma get_material_color_buf_tag:
  assumes "(ty, i) \<in> set (slots 10 10 10 sc)" "\<bar>\<delta>\<bar> < 1 / 20" "0 \<le> real i * 0.1 + \<delta>"
  shows "get_material_color_buf sc (mat_tag (ty, i) + \<delta>) q = slot_color sc (ty, i)"
proof -
  note act = slots_active [OF assms(1)]
  have "i < 10"
    using act by (cases ty) simp_all
  then have "real i * 0.1 \<le> 0.9"
    by simp
  with assms(2) have up: "real i * 0.1 + \<delta> < 1"
    by linarith
  show ?thesis
  proof (cases ty)
    case SphereT
    have d: "\<lfloor>(MAT_SPHERE + real i * 0.1 + \<delta> - MAT_SPHERE) * 10 + 0.5\<rfloor> = int i"
      by (rule tag_decode(2) [OF assms(2)])
    show ?thesis
      using act assms(3) up unfolding SphereT mat_tag.simps get_material_color_buf_def Let_def d
      by (simp add: MAT_SPHERE_def MAT_PLANE_def u32_def)
  next
    case BoxT
    have d: "\<lfloor>(MAT_BOX + real i * 0.1 + \<delta> - MAT_BOX) * 10 + 0.5\<rfloor> = int i"
      by (rule tag_decode(2) [OF assms(2)])
    show ?thesis
      using act assms(3) up unfolding BoxT mat_tag.simps get_material_color_buf_def Let_def d
      by (simp add: MAT_SPHERE_def MAT_PLANE_def MAT_BOX_def u32_def)
  next
    case TorusT
    have d: "\<lfloor>(MAT_TORUS + real i * 0.1 + \<delta> - MAT_TORUS) * 10 + 0.5\<rfloor> = int i"
      by (rule tag_decode(2) [OF assms(2)])
    show ?thesis
      using act assms(3) up unfolding TorusT mat_tag.simps get_material_color_buf_def Let_def d
      by (simp add: MAT_SPHERE_def MAT_PLANE_def MAT_BOX_def MAT_TORUS_def u32_def)
  qed
qed

lemma get_material_color_tag:
  assumes "i < (case ty of SphereT \<Rightarrow> 3 | BoxT \<Rightarrow> 2 | TorusT \<Rightarrow> 2)"
    "\<bar>\<delta>\<bar> < 1 / 20" "0 \<le> real i * 0.1 + \<delta>"
  shows "get_material_color sc (mat_tag (ty, i) + \<delta>) q = slot_color sc (ty, i)"
proof -
  have "i < 10"
    using assms(1) by (cases ty) simp_all
  then have "real i * 0.1 \<le> 0.9"
    by simp
  with assms(2) have up: "real i * 0.1 + \<delta> < 1"
    by linarith
  show ?thesis
  proof (cases ty)
    case SphereT
    have d: "i32 (wgsl_round ((MAT_SPHERE + real i * 0.1 + \<delta> - MAT_SPHERE) * 10)) = int i"
      by (rule tag_decode(1) [OF assms(2)])
    show ?thesis
      using assms(1,3) up unfolding SphereT mat_tag.simps get_material_color_def Let_def d
      by (simp add: MAT_SPHERE_def MAT_PLANE_def)
  next
    case BoxT
    have d: "i32 (wgsl_round ((MAT_BOX + real i * 0.1 + \<delta> - MAT_BOX) * 10)) = int i"
      by (rule tag_decode(1) [OF assms(2)])
    show ?thesis
      using assms(1,3) up unfolding BoxT mat_tag.simps get_material_color_def Let_def d
      by (simp add: MAT_SPHERE_def MAT_PLANE_def MAT_BOX_def)
  next
    case TorusT
    have d: "i32 (wgsl_round ((MAT_TORUS + real i * 0.1 + \<delta> - MAT_TORUS) * 10)) = int i"
      by (rule tag_decode(1) [OF assms(2)])
    show ?thesis
      using assms(1,3) up unfolding TorusT mat_tag.simps get_material_color_def Let_def d
      by (simp add: MAT_SPHERE_def MAT_PLANE_def MAT_BOX_def MAT_TORUS_def)
  qed
qed

text \<open>
  Claim C3. For every primitive type and every slot index \<open>i\<close>, rounding ten times the
  offset of the tag \<open>base + i * 0.1\<close> in its band gives \<open>i\<close> back, and still does for any
  tag within half a step (\<open>0.05\<close>) of it, which is the precision the encoding needs; below
  the capacity 10 the tags of different types and slots are different. The colour lookup
  of the shading pass returns exactly the colour stored for the primitive: on the tag of
  every primitive of the live scene (an active slot below the capacity 10) in the
  buffer-driven shader, on the tag of every slot below the capacities 3, 2, 2 in
  raymarch\_basic.wgsl, and so on the tag that \<open>get_dist\<close> returns for the primitive a
  sample hits.
\<close>

theorem material_tag_lookup:
  "(\<bar>\<delta>\<bar> < 1 / 20 \<longrightarrow>
      i32 (wgsl_round ((MAT_SPHERE + real i * 0.1 + \<delta> - MAT_SPHERE) * 10)) = int i \<and>
      i32 (wgsl_round ((MAT_BOX + real i * 0.1 + \<delta> - MAT_BOX) * 10)) = int i \<and>
      i32 (wgsl_round ((MAT_TORUS + real i * 0.1 + \<delta> - MAT_TORUS) * 10)) = int i \<and>
      \<lfloor>(MAT_SPHERE + real i * 0.1 + \<delta> - MAT_SPHERE) * 10 + 0.5\<rfloor> = int i \<and>
      \<lfloor>(MAT_BOX + real i * 0.1 + \<delta> - MAT_BOX) * 10 + 0.5\<rfloor> = int i \<and>
      \<lfloor>(MAT_TORUS + real i * 0.1 + \<delta> - MAT_TORUS) * 10 + 0.5\<rfloor> = int i) \<and>
   ((ty, i) \<in> set (slots 10 10 10 sc) \<and> \<bar>\<delta>\<bar> < 1 / 20 \<and> 0 \<le> real i * 0.1 + \<delta> \<longrightarrow>
      get_material_color_buf sc (mat_tag (ty, i) + \<delta>) q = slot_color sc (ty, i)) \<and>
   (i < (case ty of SphereT \<Rightarrow> 3 | BoxT \<Rightarrow> 2 | TorusT \<Rightarrow> 2) \<and>
    \<bar>\<delta>\<bar> < 1 / 20 \<and> 0 \<le> real i * 0.1 + \<delta> \<longrightarrow>
      get_material_color sc (mat_tag (ty, i) + \<delta>) q = slot_color sc (ty, i)) \<and>
   (hit_slot (slots 10 10 10 sc') sc' p MAX_DIST s \<longrightarrow>
      get_dist_buf sc' p = (slot_dist sc' p s, mat_tag s) \<and>
      get_material_color_buf sc' (snd (get_dist_buf sc' p)) q = slot_color sc' s) \<and>
   (hit_slot (slots 3 2 2 sc') sc' p MAX_DIST s \<longrightarrow>
      get_dist sc' p = (slot_dist sc' p s, mat_tag s) \<and>
      get_material_color sc' (snd (get_dist sc' p)) q = slot_color sc' s) \<and>
   (i < 10 \<and> j < 10 \<and> mat_tag (ty, i) = mat_tag (ty', j) \<longrightarrow> ty = ty' \<and> i = j)"
proof -
  have buf_hit: "get_dist_buf sc' p = (slot_dist sc' p s, mat_tag s) \<and>
      get_material_color_buf sc' (snd (get_dist_buf sc' p)) q = slot_color sc' s"
    if h: "hit_slot (slots 10 10 10 sc') sc' p MAX_DIST s"
  proof -
    obtain t n where s: "s = (t, n)"
      by (cases s)
    have "(t, n) \<in> set (slots 10 10 10 sc')"
      using h by (simp add: hit_slot_def s)
    then have "get_material_color_buf sc' (mat_tag (t, n) + 0) q = slot_color sc' (t, n)"
      by (rule get_material_color_buf_tag) simp_all
    then show ?thesis
      by (simp add: get_dist_buf_hit [OF h] s del: mat_tag.simps slot_color.simps slot_dist.simps)
  qed
  have basic_hit: "get_dist sc' p = (slot_dist sc' p s, mat_tag s) \<and>
      get_material_color sc' (snd (get_dist sc' p)) q = slot_color sc' s"
    if h: "hit_slot (slots 3 2 2 sc') sc' p MAX_DIST s"
  proof -
    obtain t n where s: "s = (t, n)"
      by (cases s)
    have "(t, n) \<in> set (slots 3 2 2 sc')"
      using h by (simp add: hit_slot_def s)
    then have "n < (case t of SphereT \<Rightarrow> 3 | BoxT \<Rightarrow> 2 | TorusT \<Rightarrow> 2)"
      using slots_active [of t n 3 2 2 sc'] by (cases t) simp_all
    then have "get_material_color sc' (mat_tag (t, n) + 0) q = slot_color sc' (t, n)"
      by (rule get_material_color_tag) simp_all
    then show ?thesis
      by (simp add: get_dist_hit [OF h] s del: mat_tag.simps slot_color.simps slot_dist.simps)
  qed
  from buf_hit basic_hit tag_decode [of \<delta>] mat_tag_inj [of i j ty ty']
    get_material_color_buf_tag [of ty i sc \<delta> q] get_material_color_tag [of i ty \<delta> sc q]
  show ?thesis
    by blast
qed

lemma two_of_each_slots:
  "(BoxT, 1) \<in> set (slots 10 10 10 two_of_each)"
  by (simp add: slots_def two_of_each_def)

lemma box_scene_hit_buf:
  "hit_slot (slots 10 10 10 box_scene) box_scene (0, 10, 5) MAX_DIST (BoxT, 0)"
  by (simp add: hit_slot_def box_scene_slots box_scene_dist plane_dist_def sd_plane_def
      MAX_DIST_def del: slot_dist.simps)

theorem material_tag_lookup_witness:
  "\<bar>- (3 / 100) :: real\<bar> < 1 / 20 \<and> (0::real) \<le> real 1 * 0.1 + - (3 / 100) \<and>
   (BoxT, 1) \<in> set (slots 10 10 10 two_of_each) \<and>
   (1::nat) < (case BoxT of SphereT \<Rightarrow> 3 | BoxT \<Rightarrow> 2 | TorusT \<Rightarrow> 2) \<and>
   i32 (wgsl_round ((MAT_BOX + real 1 * 0.1 + - (3 / 100) - MAT_BOX) * 10)) = 1 \<and>
   get_material_color_buf two_of_each (mat_tag (BoxT, 1) + - (3 / 100)) (0, 0, 0) = (0, 1, 1) \<and>
   get_material_color two_of_each (mat_tag (BoxT, 1) + - (3 / 100)) (0, 0, 0) = (0, 1, 1) \<and>
   hit_slot (slots 10 10 10 box_scene) box_scene (0, 10, 5) MAX_DIST (BoxT, 0) \<and>
   hit_slot (slots 3 2 2 box_scene) box_scene (0, 10, 5) MAX_DIST (BoxT, 0) \<and>
   get_material_color_buf box_scene (snd (get_dist_buf box_scene (0, 10, 5))) (0, 0, 0)
     = (0, 0, 1) \<and>
   get_material_color box_scene (snd (get_dist box_scene (0, 10, 5))) (0, 0, 0) = (0, 0, 1) \<and>
   (1::nat) < 10 \<and> (0::nat) < 10 \<and> mat_tag (BoxT, 1) \<noteq> mat_tag (TorusT, 0)"
proof -
  note inst = material_tag_lookup [of "- (3 / 100)" 1 BoxT two_of_each "(0, 0, 0)"
      box_scene "(0, 10, 5)" "(BoxT, 0)" 0 TorusT]
  have c: "slot_color two_of_each (BoxT, 1) = (0, 1, 1)"
    "slot_color box_scene (BoxT, 0) = (0, 0, 1)"
    by (simp_all add: two_of_each_def far_box_def box_scene_def high_box_def)
  have small: "\<bar>- (3 / 100) :: real\<bar> < 1 / 20" "(0::real) \<le> real 1 * 0.1 + - (3 / 100)"
    by simp_all
  have cap: "(1::nat) < (case BoxT of SphereT \<Rightarrow> 3 | BoxT \<Rightarrow> 2 | TorusT \<Rightarrow> 2)"
    by simp
  have ne: "(1::nat) < 10" "(0::nat) < 10" "BoxT \<noteq> TorusT"
    by simp_all
  from inst small two_of_each_slots cap box_scene_hit_buf box_scene_hit(3) ne
  have r: "i32 (wgsl_round ((MAT_BOX + real 1 * 0.1 + - (3 / 100) - MAT_BOX) * 10)) = int 1 \<and>
      get_material_color_buf two_of_each (mat_tag (BoxT, 1) + - (3 / 100)) (0, 0, 0)
        = slot_color two_of_each (BoxT, 1) \<and>
      get_material_color two_of_each (mat_tag (BoxT, 1) + - (3 / 100)) (0, 0, 0)
        = slot_color two_of_each (BoxT, 1) \<and>
      get_material_color_buf box_scene (snd (get_dist_buf box_scene (0, 10, 5))) (0, 0, 0)
        = slot_color box_scene (BoxT, 0) \<and>
      get_material_color box_scene (snd (get_dist box_scene (0, 10, 5))) (0, 0, 0)
        = slot_color box_scene (BoxT, 0) \<and>
      mat_tag (BoxT, 1) \<noteq> mat_tag (TorusT, 0)"
    by blast
  from r [unfolded c] small two_of_each_slots cap box_scene_hit_buf box_scene_hit(3)
  show ?thesis
    by (simp del: mat_tag.simps)
qed

section \<open>The blend modes\<close>












section \<open>The march onto the sphere\<close>

text \<open>The same scene at a sample where the plane is not farther than the sphere.\<close>

lemma get_dist_single_sphere_plane:
  assumes "num_spheres sc = 1" "num_boxes sc = 0" "num_tori sc = 0"
    and "sphere_center (spheres sc 0) = (0, 0, 0)" "sphere_radius (spheres sc 0) = r"
    and "plane_dist p \<le> length3 p - r" "plane_dist p < MAX_DIST"
  shows "get_dist sc p = (plane_dist p, MAT_PLANE)"
proof -
  have sd: "sphere_dist sc p 0 = length3 p - r"
    using assms(4,5) by (simp add: sphere_dist_def sd_sphere_def vsub_zero)
  have "get_dist sc p =
      sphere_step (\<lambda>i. MAT_SPHERE + real i * 0.1) sc p
        (if plane_dist p < MAX_DIST then (plane_dist p, MAT_PLANE) else (MAX_DIST, - 1)) 0"
    using assms(1-3) by (simp add: get_dist_def)
  also have "\<dots> = (plane_dist p, MAT_PLANE)"
    using assms(6,7) by (simp add: sphere_step_def sd)
  finally show ?thesis .
qed

text \<open>The points of the ray from \<open>ro\<close> towards the origin.\<close>

lemma plane_dist_y: "plane_dist p = fst (snd p) + 1 / 2"
  by (cases p) (simp add: plane_dist_def sd_plane_def)

lemma ray_point:
  "vadd ro (vscale (normalize (vsub (0, 0, 0) ro)) s) = vscale ro (1 - s / length3 ro)"
  unfolding normalize_def length3_neg
  by (cases ro) (simp add: algebra_simps del: length3.simps)

lemma ray_length:
  assumes "s \<le> length3 ro" "0 < length3 ro"
  shows "length3 (vadd ro (vscale (normalize (vsub (0, 0, 0) ro)) s)) = length3 ro - s"
proof -
  have "0 \<le> 1 - s / length3 ro"
    using assms by simp
  then have "\<bar>1 - s / length3 ro\<bar> * length3 ro = length3 ro - s"
    using assms(2) by (simp add: field_simps)
  then show ?thesis
    by (simp only: ray_point length3_vscale)
qed

lemma ray_plane_dist:
  "plane_dist (vadd ro (vscale (normalize (vsub (0, 0, 0) ro)) s))
     = fst (snd ro) * (1 - s / length3 ro) + 1 / 2"
  unfolding ray_point plane_dist_y by (cases ro) simp

lemma ray_plane_floor:
  assumes "0 \<le> s" "s \<le> length3 ro" "0 < length3 ro"
  shows "min (plane_dist ro) (1 / 2)
           \<le> plane_dist (vadd ro (vscale (normalize (vsub (0, 0, 0) ro)) s))"
proof -
  let ?k = "1 - s / length3 ro" and ?b = "fst (snd ro)"
  have k: "0 \<le> ?k" "?k \<le> 1"
    using assms by simp_all
  show ?thesis
  proof (cases "0 \<le> ?b")
    case True
    then have "0 \<le> ?b * ?k"
      using k by simp
    then show ?thesis
      by (simp add: ray_plane_dist min_def)
  next
    case False
    then have "?b * 1 \<le> ?b * ?k"
      using k by (intro mult_left_mono_neg) simp_all
    then show ?thesis
      by (simp add: ray_plane_dist plane_dist_y [of ro] min_def)
  qed
qed

text \<open>The samples of the ray in the scene with one sphere at the origin.\<close>

lemma get_dist_on_ray:
  assumes "num_spheres sc = 1" "num_boxes sc = 0" "num_tori sc = 0"
    and "sphere_center (spheres sc 0) = (0, 0, 0)" "sphere_radius (spheres sc 0) = r"
    and "0 < r" "r < length3 ro" "length3 ro - r < MAX_DIST" "0 \<le> s" "s \<le> length3 ro - r"
  shows "get_dist sc (vadd ro (vscale (normalize (vsub (0, 0, 0) ro)) s)) =
     (if length3 ro - r - s < plane_dist (vadd ro (vscale (normalize (vsub (0, 0, 0) ro)) s))
      then (length3 ro - r - s, MAT_SPHERE)
      else (plane_dist (vadd ro (vscale (normalize (vsub (0, 0, 0) ro)) s)), MAT_PLANE))"
proof -
  let ?p = "vadd ro (vscale (normalize (vsub (0, 0, 0) ro)) s)"
  have len: "length3 ?p = length3 ro - s"
    using assms(6,7,10) by (intro ray_length) simp_all
  show ?thesis
  proof (cases "length3 ro - r - s < plane_dist ?p")
    case True
    have "length3 ?p - r < plane_dist ?p" "length3 ?p - r < MAX_DIST"
      using True assms(8,9) by (simp_all add: len)
    with assms(1-5) have "get_dist sc ?p = (length3 ?p - r, MAT_SPHERE)"
      by (intro get_dist_single_sphere)
    with True show ?thesis
      by (simp add: len)
  next
    case False
    have "plane_dist ?p \<le> length3 ?p - r" "plane_dist ?p < MAX_DIST"
      using False assms(8,9) by (simp_all add: len)
    with assms(1-5) have "get_dist sc ?p = (plane_dist ?p, MAT_PLANE)"
      by (intro get_dist_single_sphere_plane)
    with False show ?thesis
      by simp
  qed
qed

text \<open>
  The march in a field that, along the ray up to the distance \<open>L\<close>, is the nearer of a
  surface at \<open>L\<close> and the plane, the plane being at least \<open>SURF_DIST\<close> away. Once at the
  surface the march stays there; before it, it steps by the plane's distance until the
  surface is the nearer one, and then steps onto it.
\<close>

lemma march_from_surface:
  assumes "field (vadd ro (vscale rd L)) = (0, MAT_SPHERE)"
  shows "march_loop field ro rd n L MAT_SPHERE = (L, MAT_SPHERE)"
  by (cases n) (simp_all add: assms Let_def SURF_DIST_def)

lemma march_reaches:
  assumes field: "\<And>s. 0 \<le> s \<Longrightarrow> s \<le> L \<Longrightarrow>
      field (vadd ro (vscale rd s)) =
        (if L - s < plane_dist (vadd ro (vscale rd s)) then (L - s, MAT_SPHERE)
         else (plane_dist (vadd ro (vscale rd s)), MAT_PLANE))"
    and floor: "\<And>s. 0 \<le> s \<Longrightarrow> s \<le> L \<Longrightarrow> SURF_DIST \<le> plane_dist (vadd ro (vscale rd s))"
    and L: "L < MAX_DIST"
    and "0 \<le> s" "s \<le> L" "L < plane_run ro rd n s"
  shows "march_loop field ro rd n s m0 = (L, MAT_SPHERE)"
  using assms(4-)
proof (induction n arbitrary: s m0)
  case 0
  then show ?case
    by simp
next
  case (Suc n)
  let ?g = "plane_dist (vadd ro (vscale rd s))"
  have g: "SURF_DIST \<le> ?g"
    using Suc.prems by (intro floor) simp_all
  have surf: "field (vadd ro (vscale rd L)) = (0, MAT_SPHERE)"
    using field [of L] floor [of L] Suc.prems by (simp add: SURF_DIST_def)
  show ?case
  proof (cases "L - s < ?g")
    case True
    then have f: "field (vadd ro (vscale rd s)) = (L - s, MAT_SPHERE)"
      using field [of s] Suc.prems by simp
    show ?thesis
      using L by (simp add: f Let_def march_from_surface [of field ro rd L, OF surf])
  next
    case False
    then have f: "field (vadd ro (vscale rd s)) = (?g, MAT_PLANE)"
      using field [of s] Suc.prems by simp
    have "march_loop field ro rd n (s + ?g) MAT_PLANE = (L, MAT_SPHERE)"
      using Suc.prems False g by (intro Suc.IH) (simp_all add: SURF_DIST_def)
    then show ?thesis
      using False g L by (simp add: f Let_def)
  qed
qed

lemma march_reaches_floor:
  assumes field: "\<And>s. 0 \<le> s \<Longrightarrow> s \<le> L \<Longrightarrow>
      field (vadd ro (vscale rd s)) =
        (if L - s < plane_dist (vadd ro (vscale rd s)) then (L - s, MAT_SPHERE)
         else (plane_dist (vadd ro (vscale rd s)), MAT_PLANE))"
    and floor: "\<And>s. 0 \<le> s \<Longrightarrow> s \<le> L \<Longrightarrow> c \<le> plane_dist (vadd ro (vscale rd s))"
    and c: "SURF_DIST \<le> c"
    and L: "L < MAX_DIST"
    and "0 \<le> s" "s \<le> L" "L - s < real n * c"
  shows "march_loop field ro rd n s m0 = (L, MAT_SPHERE)"
  using assms(5-)
proof (induction n arbitrary: s m0)
  case 0
  then show ?case
    by simp
next
  case (Suc n)
  let ?g = "plane_dist (vadd ro (vscale rd s))"
  have g: "c \<le> ?g"
    using Suc.prems by (intro floor) simp_all
  have surf: "field (vadd ro (vscale rd L)) = (0, MAT_SPHERE)"
    using field [of L] floor [of L] c Suc.prems by (simp add: SURF_DIST_def)
  show ?case
  proof (cases "L - s < ?g")
    case True
    then have f: "field (vadd ro (vscale rd s)) = (L - s, MAT_SPHERE)"
      using field [of s] Suc.prems by simp
    show ?thesis
      using L by (simp add: f Let_def march_from_surface [of field ro rd L, OF surf])
  next
    case False
    then have f: "field (vadd ro (vscale rd s)) = (?g, MAT_PLANE)"
      using field [of s] Suc.prems by simp
    have "L - (s + ?g) < real n * c"
      using Suc.prems(3) g by (simp add: algebra_simps)
    then have "march_loop field ro rd n (s + ?g) MAT_PLANE = (L, MAT_SPHERE)"
      using Suc.prems False g c by (intro Suc.IH) (simp_all add: SURF_DIST_def)
    then show ?thesis
      using False g c L by (simp add: f Let_def)
  qed
qed

text \<open>When the steps by the plane's distance stay before the surface for the whole
  budget, the march returns where they end, with the tag of the plane.\<close>

lemma march_exhausts:
  assumes field: "\<And>s. 0 \<le> s \<Longrightarrow> s \<le> L \<Longrightarrow>
      field (vadd ro (vscale rd s)) =
        (if L - s < plane_dist (vadd ro (vscale rd s)) then (L - s, MAT_SPHERE)
         else (plane_dist (vadd ro (vscale rd s)), MAT_PLANE))"
    and floor: "\<And>s. 0 \<le> s \<Longrightarrow> s \<le> L \<Longrightarrow> SURF_DIST \<le> plane_dist (vadd ro (vscale rd s))"
    and L: "L < MAX_DIST"
    and "0 \<le> s" "\<forall>k \<le> n. plane_run ro rd k s \<le> L"
  shows "march_loop field ro rd n s m0
           = (plane_run ro rd n s, if n = 0 then m0 else MAT_PLANE)"
  using assms(4-)
proof (induction n arbitrary: s m0)
  case 0
  then show ?case
    by simp
next
  case (Suc n)
  let ?g = "plane_dist (vadd ro (vscale rd s))"
  have s: "s \<le> L"
    using Suc.prems(2) by (auto dest: spec [of _ 0])
  have one: "s + ?g \<le> L"
    using Suc.prems(2) by (auto dest: spec [of _ "Suc 0"])
  have g: "SURF_DIST \<le> ?g"
    using Suc.prems s by (intro floor) simp_all
  have f: "field (vadd ro (vscale rd s)) = (?g, MAT_PLANE)"
    using field [of s] Suc.prems s one by simp
  have rest: "\<forall>k \<le> n. plane_run ro rd k (s + ?g) \<le> L"
  proof (intro allI impI)
    fix k assume "k \<le> n"
    with Suc.prems(2) [rule_format, of "Suc k"] show "plane_run ro rd k (s + ?g) \<le> L"
      by simp
  qed
  have "march_loop field ro rd n (s + ?g) MAT_PLANE
      = (plane_run ro rd n (s + ?g), if n = 0 then MAT_PLANE else MAT_PLANE)"
    using Suc.prems g rest by (intro Suc.IH) (simp_all add: SURF_DIST_def)
  then show ?case
    using g one L by (simp add: f Let_def)
qed

text \<open>
  Claim C4, as the code has it. The scene contains exactly one sphere, of radius \<open>r > 0\<close>
  and centred at the origin; the ray starts at \<open>ro\<close>, at the distance \<open>d > r\<close> from the
  origin with \<open>d - r < MAX_DIST\<close>, and points at the origin; the ground plane does not
  intervene: \<open>ro\<close> is at least \<open>SURF_DIST\<close> above it, and then so is every point of the ray
  up to the sphere. The march steps by the distance to the plane while the plane is the
  nearer surface, and onto the sphere as soon as the sphere is nearer. When these steps
  pass \<open>d - r\<close> within \<open>MAX_STEPS\<close> samples, \<open>ray_march\<close> returns exactly \<open>t = d - r\<close>
  with the tag of sphere slot 0: a hit, \<open>t < MAX_DIST\<close>, with
  \<open>\<bar>t - (d - r)\<bar> \<le> SURF_DIST\<close>. They do so whenever
  \<open>d - r < MAX_STEPS * min (plane distance of ro) 0.5\<close>, and so for every \<open>ro\<close> that is not
  below the level of the centre of the sphere.
\<close>

theorem ray_march_sphere_origin:
  assumes "num_spheres sc = 1" "num_boxes sc = 0" "num_tori sc = 0"
    and "sphere_center (spheres sc 0) = (0, 0, 0)" "sphere_radius (spheres sc 0) = r"
    and "0 < r" "r < length3 ro" "rd = normalize (vsub (0, 0, 0) ro)"
    and "length3 ro - r < MAX_DIST" "SURF_DIST \<le> plane_dist ro"
  shows "length3 ro - r < plane_reach ro rd MAX_STEPS \<or>
         length3 ro - r < real MAX_STEPS * min (plane_dist ro) (1 / 2) \<or>
         0 \<le> fst (snd ro) \<longrightarrow>
           ray_march sc ro rd = (length3 ro - r, MAT_SPHERE) \<and>
           fst (ray_march sc ro rd) < MAX_DIST \<and>
           \<bar>fst (ray_march sc ro rd) - (length3 ro - r)\<bar> \<le> SURF_DIST"
proof -
  let ?L = "length3 ro - r" and ?c = "min (plane_dist ro) (1 / 2)"
  have field: "get_dist sc (vadd ro (vscale rd s)) =
        (if ?L - s < plane_dist (vadd ro (vscale rd s)) then (?L - s, MAT_SPHERE)
         else (plane_dist (vadd ro (vscale rd s)), MAT_PLANE))"
    if "0 \<le> s" "s \<le> ?L" for s
    unfolding assms(8) using assms(1-7,9) that by (rule get_dist_on_ray)
  have floor: "?c \<le> plane_dist (vadd ro (vscale rd s))" if "0 \<le> s" "s \<le> ?L" for s
    unfolding assms(8) using that assms(6,7) by (intro ray_plane_floor) simp_all
  have c: "SURF_DIST \<le> ?c"
    using assms(10) by (simp add: SURF_DIST_def)
  have surf: "SURF_DIST \<le> plane_dist (vadd ro (vscale rd s))" if "0 \<le> s" "s \<le> ?L" for s
    using floor [OF that] c by (rule order_trans [rotated])
  have L: "0 \<le> ?L"
    using assms(7) by simp
  have budget: "ray_march sc ro rd = (?L, MAT_SPHERE)" if "?L < plane_reach ro rd MAX_STEPS"
    unfolding ray_march_def
  proof (rule march_reaches [where L = ?L])
    show "?L < plane_run ro rd MAX_STEPS 0"
      using that by (simp only: plane_reach_def)
  qed (use field surf assms(9) L in simp_all)
  have closed: "ray_march sc ro rd = (?L, MAT_SPHERE)" if "?L < real MAX_STEPS * ?c"
    unfolding ray_march_def
  proof (rule march_reaches_floor [where L = ?L and c = ?c])
    show "?L - 0 < real MAX_STEPS * ?c"
      using that by simp
    show "SURF_DIST \<le> ?c"
      by (rule c)
    show "?c \<le> plane_dist (vadd ro (vscale rd s))" if "0 \<le> s" "s \<le> ?L" for s
      using that by (rule floor)
  qed (use field assms(9) L in simp_all)
  have above: "ray_march sc ro rd = (?L, MAT_SPHERE)" if "0 \<le> fst (snd ro)"
  proof (rule closed)
    have "?c = 1 / 2"
      using that by (simp add: plane_dist_y)
    then show "?L < real MAX_STEPS * ?c"
      using assms(9) by (simp add: MAX_STEPS_def MAX_DIST_def)
  qed
  have "fst (?L, MAT_SPHERE) < MAX_DIST \<and> \<bar>fst (?L, MAT_SPHERE) - ?L\<bar> \<le> SURF_DIST"
    using assms(9) by (simp add: SURF_DIST_def)
  with budget closed above show ?thesis
    by metis
qed

lemma plane_run_level:
  "fst (snd ro) = 0 \<Longrightarrow> fst (snd rd) = 0 \<Longrightarrow> plane_run ro rd n s = s + real n / 2"
proof (induction n arbitrary: s)
  case 0
  show ?case
    by simp
next
  case (Suc n)
  have "plane_dist (vadd ro (vscale rd s)) = 1 / 2"
    using Suc.prems by (cases ro; cases rd) (simp add: plane_dist_y)
  then show ?case
    using Suc by (simp add: field_simps)
qed

theorem ray_march_sphere_origin_witness:
  "num_spheres (one_sphere_scene (1 / 4)) = 1 \<and> num_boxes (one_sphere_scene (1 / 4)) = 0 \<and>
   num_tori (one_sphere_scene (1 / 4)) = 0 \<and>
   sphere_center (spheres (one_sphere_scene (1 / 4)) 0) = (0, 0, 0) \<and>
   sphere_radius (spheres (one_sphere_scene (1 / 4)) 0) = 1 / 4 \<and>
   (0::real) < 1 / 4 \<and> 1 / 4 < length3 (0, 0, 5) \<and>
   (0, 0, - 1) = normalize (vsub (0, 0, 0) (0, 0, 5)) \<and>
   length3 (0, 0, 5) - 1 / 4 < MAX_DIST \<and> SURF_DIST \<le> plane_dist (0, 0, 5) \<and>
   length3 (0, 0, 5) - 1 / 4 < plane_reach (0, 0, 5) (0, 0, - 1) MAX_STEPS \<and>
   length3 (0, 0, 5) - 1 / 4 < real MAX_STEPS * min (plane_dist (0, 0, 5)) (1 / 2) \<and>
   (0::real) \<le> fst (snd (0 :: real, 0 :: real, 5 :: real)) \<and>
   ray_march (one_sphere_scene (1 / 4)) (0, 0, 5) (0, 0, - 1) = (19 / 4, MAT_SPHERE) \<and>
   fst (ray_march (one_sphere_scene (1 / 4)) (0, 0, 5) (0, 0, - 1)) < MAX_DIST \<and>
   \<bar>fst (ray_march (one_sphere_scene (1 / 4)) (0, 0, 5) (0, 0, - 1)) - 19 / 4\<bar> \<le> SURF_DIST"
proof -
  let ?sc = "one_sphere_scene (1 / 4)"
  have len: "length3 (0, 0, 5) = 5"
    by (simp add: length3_axis_z del: length3.simps)
  have h1: "num_spheres ?sc = 1" and h2: "num_boxes ?sc = 0" and h3: "num_tori ?sc = 0"
    and h4: "sphere_center (spheres ?sc 0) = (0, 0, 0)"
    and h5: "sphere_radius (spheres ?sc 0) = 1 / 4"
    by (simp_all add: one_sphere_scene_def empty_scene_def red_sphere_def)
  have h6: "(0::real) < 1 / 4"
    by simp
  have h7: "1 / 4 < length3 (0, 0, 5)"
    by (simp add: len del: length3.simps)
  have h8: "(0, 0, - 1) = normalize (vsub (0, 0, 0) (0, 0, 5))"
    unfolding normalize_def by (simp add: length3_axis_z del: length3.simps)
  have h9: "length3 (0, 0, 5) - 1 / 4 < MAX_DIST"
    by (simp add: len MAX_DIST_def del: length3.simps)
  have h10: "SURF_DIST \<le> plane_dist (0, 0, 5)"
    by (simp add: plane_dist_y SURF_DIST_def)
  have b1: "length3 (0, 0, 5) - 1 / 4 < plane_reach (0, 0, 5) (0, 0, - 1) MAX_STEPS"
    by (simp add: len plane_reach_def plane_run_level MAX_STEPS_def del: length3.simps)
  have b2: "length3 (0, 0, 5) - 1 / 4 < real MAX_STEPS * min (plane_dist (0, 0, 5)) (1 / 2)"
    by (simp add: len plane_dist_y MAX_STEPS_def del: length3.simps)
  have b3: "(0::real) \<le> fst (snd (0 :: real, 0 :: real, 5 :: real))"
    by simp
  from ray_march_sphere_origin [OF h1 h2 h3 h4 h5 h6 h7 h8 h9 h10] b1
  have r: "ray_march ?sc (0, 0, 5) (0, 0, - 1) = (length3 (0, 0, 5) - 1 / 4, MAT_SPHERE)"
    "fst (ray_march ?sc (0, 0, 5) (0, 0, - 1)) < MAX_DIST"
    "\<bar>fst (ray_march ?sc (0, 0, 5) (0, 0, - 1)) - (length3 (0, 0, 5) - 1 / 4)\<bar> \<le> SURF_DIST"
    by blast+
  have v: "length3 (0, 0, 5) - 1 / 4 = 19 / 4"
    by (simp add: len del: length3.simps)
  from r [unfolded v] h1 h2 h3 h4 h5 h6 h7 h8 h9 h10 b1 b2 b3 show ?thesis
    by (simp only: simp_thms)
qed

text \<open>Two ways in which the march does not reach the sphere; the first needs the steps
  by the plane's distance in closed form, for a ray along which that distance is
  \<open>h + m * s\<close>.\<close>

lemma plane_run_affine:
  assumes "\<And>s. plane_dist (vadd ro (vscale rd s)) = h + m * s" "m \<noteq> 0"
  shows "plane_run ro rd n s = (1 + m) ^ n * (s + h / m) - h / m"
proof (induction n arbitrary: s)
  case 0
  show ?case
    by simp
next
  case (Suc n)
  have "s + (h + m * s) + h / m = (1 + m) * (s + h / m)"
    using assms(2) by (simp add: field_simps)
  then show ?case
    by (simp add: assms(1) Suc.IH mult.assoc)
qed

lemma grazing_growth:
  assumes "k \<le> 256"
  shows "(1 + 400 / 40001 :: real) ^ k \<le> 27"
proof -
  have "(1 + 400 / 40001 :: real) ^ k \<le> (1 + 400 / 40001) ^ 256"
    using assms by (intro power_increasing) simp_all
  also have "\<dots> \<le> exp (400 / 40001) ^ 256"
    by (intro power_mono exp_ge_add_one_self) simp
  also have "\<dots> = exp (of_nat 256 * (400 / 40001))"
    by (simp only: exp_of_nat_mult)
  also have "\<dots> \<le> exp 3"
    by simp
  also have "\<dots> = exp 1 ^ 3"
    using exp_of_nat_mult [of 3 "1::real"] by simp
  also have "\<dots> \<le> 3 ^ 3"
    by (intro power_mono exp_le) simp
  finally show ?thesis
    by simp
qed

lemma grazing_length: "length3 grazing_origin = 1960049 / 40000"
proof -
  have "(0::real) * 0 + - (49 / 100) * - (49 / 100) + 1959951 / 40000 * (1959951 / 40000)
      = (1960049 / 40000) * (1960049 / 40000)"
    by simp
  then have "length3 grazing_origin = sqrt ((1960049 / 40000) * (1960049 / 40000))"
    by (simp only: grazing_origin_def length3.simps)
  then show ?thesis
    by (simp only: real_sqrt_abs2)
qed

lemma grazing_plane_dist:
  "plane_dist (vadd grazing_origin (vscale (normalize (vsub (0, 0, 0) grazing_origin)) s))
     = 1 / 100 + 400 / 40001 * s"
  unfolding ray_plane_dist grazing_length by (simp add: grazing_origin_def field_simps)

text \<open>From \<open>grazing_origin\<close> the plane is the nearer surface for all the 256 samples: the
  steps grow from \<open>0.01\<close> by the factor \<open>1 + 400/40001\<close> and cover less than 27 units of
  the 48.75 to the sphere.\<close>

lemma grazing_march:
  "snd (ray_march (one_sphere_scene (1 / 4)) grazing_origin
          (normalize (vsub (0, 0, 0) grazing_origin))) = MAT_PLANE \<and>
   fst (ray_march (one_sphere_scene (1 / 4)) grazing_origin
          (normalize (vsub (0, 0, 0) grazing_origin))) \<le> 27"
proof -
  let ?sc = "one_sphere_scene (1 / 4)" and ?rd = "normalize (vsub (0, 0, 0) grazing_origin)"
  let ?L = "length3 grazing_origin - 1 / 4"
  have run: "plane_run grazing_origin ?rd k 0
      = (1 + 400 / 40001) ^ k * (40001 / 40000) - 40001 / 40000" for k
    using plane_run_affine [of grazing_origin ?rd "1 / 100" "400 / 40001" k 0]
    by (simp add: grazing_plane_dist)
  have bound: "plane_run grazing_origin ?rd k 0 \<le> 26 * (40001 / 40000)" if "k \<le> 256" for k
    using grazing_growth [OF that] by (simp add: run)
  have "march_loop (get_dist ?sc) grazing_origin ?rd MAX_STEPS 0 (- 1)
      = (plane_run grazing_origin ?rd MAX_STEPS 0, if MAX_STEPS = 0 then - 1 else MAT_PLANE)"
  proof (rule march_exhausts [where L = ?L])
    show "get_dist ?sc (vadd grazing_origin (vscale ?rd s)) =
        (if ?L - s < plane_dist (vadd grazing_origin (vscale ?rd s)) then (?L - s, MAT_SPHERE)
         else (plane_dist (vadd grazing_origin (vscale ?rd s)), MAT_PLANE))"
      if "0 \<le> s" "s \<le> ?L" for s
      using that
      by (intro get_dist_on_ray)
        (simp_all add: one_sphere_scene_def empty_scene_def red_sphere_def grazing_length
          MAX_DIST_def)
    show "SURF_DIST \<le> plane_dist (vadd grazing_origin (vscale ?rd s))" if "0 \<le> s" for s
      using that by (simp add: grazing_plane_dist SURF_DIST_def)
    show "?L < MAX_DIST"
      by (simp add: grazing_length MAX_DIST_def)
    show "\<forall>k \<le> MAX_STEPS. plane_run grazing_origin ?rd k 0 \<le> ?L"
    proof (intro allI impI)
      fix k assume "k \<le> MAX_STEPS"
      then have "plane_run grazing_origin ?rd k 0 \<le> 26 * (40001 / 40000)"
        by (intro bound) (simp add: MAX_STEPS_def)
      then show "plane_run grazing_origin ?rd k 0 \<le> ?L"
        by (simp add: grazing_length)
    qed
  qed simp
  moreover have "plane_run grazing_origin ?rd MAX_STEPS 0 \<le> 26 * (40001 / 40000)"
    by (intro bound) (simp add: MAX_STEPS_def)
  ultimately show ?thesis
    by (simp add: ray_march_def MAX_STEPS_def)
qed

text \<open>
  The claim as stated fails in two ways. Far from the sphere: from \<open>(0, 250, 0)\<close> straight
  down onto a sphere of radius \<open>1/4\<close> the plane never intervenes, yet neither the sphere
  nor the plane is nearer than \<open>MAX_DIST\<close>, the march advances by \<open>MAX_DIST\<close> twice and
  stops at \<open>t = 200\<close> with the tag \<open>-1\<close>: a miss. Out of steps: from \<open>grazing_origin\<close>,
  \<open>0.01\<close> above the plane and \<open>48.75\<close> from the sphere, the ray rises away from the plane
  and never comes within \<open>SURF_DIST\<close> of it, but the 256 samples, each a step of the
  plane's distance, end before 27 units: the march returns the plane's tag and a distance
  that is not \<open>d - r\<close>.
\<close>

theorem ray_march_sphere_counterexample:
  "(0::real) < 1 / 4 \<and> 1 / 4 < length3 (0, 250, 0) \<and>
   (0, - 1, 0) = normalize (vsub (0, 0, 0) (0, 250, 0)) \<and>
   SURF_DIST \<le> plane_dist (0, 250, 0) \<and>
   length3 (0, 250, 0) - 1 / 4 < plane_dist (0, 250, 0) \<and>
   ray_march (one_sphere_scene (1 / 4)) (0, 250, 0) (0, - 1, 0) = (200, - 1) \<and>
   MAX_DIST \<le> fst (ray_march (one_sphere_scene (1 / 4)) (0, 250, 0) (0, - 1, 0)) \<and>
   SURF_DIST < \<bar>fst (ray_march (one_sphere_scene (1 / 4)) (0, 250, 0) (0, - 1, 0))
                  - (length3 (0, 250, 0) - 1 / 4)\<bar> \<and>
   1 / 4 < length3 grazing_origin \<and> length3 grazing_origin - 1 / 4 < MAX_DIST \<and>
   SURF_DIST \<le> plane_dist grazing_origin \<and>
   snd (ray_march (one_sphere_scene (1 / 4)) grazing_origin
          (normalize (vsub (0, 0, 0) grazing_origin))) = MAT_PLANE \<and>
   SURF_DIST < \<bar>fst (ray_march (one_sphere_scene (1 / 4)) grazing_origin
                        (normalize (vsub (0, 0, 0) grazing_origin)))
                  - (length3 grazing_origin - 1 / 4)\<bar>"
proof -
  let ?sc = "one_sphere_scene (1 / 4)"
  have len: "length3 (0, 250, 0) = 250"
    by (simp add: length3_axis_y del: length3.simps)
  have g: "get_dist ?sc (0, y, 0) = (100, - 1)" if "101 \<le> y" for y
  proof -
    have "length3 (0, y, 0) = y"
      using that by (simp add: length3_axis_y del: length3.simps)
    then show ?thesis
      using that
      by (simp add: get_dist_def one_sphere_scene_def empty_scene_def red_sphere_def
          sphere_step_def sphere_dist_def sd_sphere_def plane_dist_def sd_plane_def
          MAX_DIST_def del: length3.simps)
  qed
  have steps: "MAX_STEPS = Suc (Suc 254)"
    by (simp add: MAX_STEPS_def)
  have "march_loop (get_dist ?sc) (0, 250, 0) (0, - 1, 0) (Suc (Suc 254)) 0 (- 1)
          = (2 * MAX_DIST, - 1)"
    by (rule march_loop_two_far_steps) (simp_all add: g MAX_DIST_def)
  then have march: "ray_march ?sc (0, 250, 0) (0, - 1, 0) = (200, - 1)"
    unfolding ray_march_def steps by (simp add: MAX_DIST_def)
  have n: "normalize (vsub (0, 0, 0) (0, 250, 0)) = (0, - 1, 0)"
    unfolding normalize_def by (simp add: length3_axis_y del: length3.simps)
  have far: "(0::real) < 1 / 4 \<and> 1 / 4 < length3 (0, 250, 0) \<and>
     (0, - 1, 0) = normalize (vsub (0, 0, 0) (0, 250, 0)) \<and>
     SURF_DIST \<le> plane_dist (0, 250, 0) \<and>
     length3 (0, 250, 0) - 1 / 4 < plane_dist (0, 250, 0) \<and>
     ray_march ?sc (0, 250, 0) (0, - 1, 0) = (200, - 1) \<and>
     MAX_DIST \<le> fst (ray_march ?sc (0, 250, 0) (0, - 1, 0)) \<and>
     SURF_DIST < \<bar>fst (ray_march ?sc (0, 250, 0) (0, - 1, 0))
                    - (length3 (0, 250, 0) - 1 / 4)\<bar>"
    unfolding march
    unfolding n
    by (simp add: len plane_dist_def sd_plane_def MAX_DIST_def SURF_DIST_def del: length3.simps)
  have "fst (ray_march ?sc grazing_origin (normalize (vsub (0, 0, 0) grazing_origin))) \<le> 27"
    using grazing_march by simp
  then have "SURF_DIST < \<bar>fst (ray_march ?sc grazing_origin
                        (normalize (vsub (0, 0, 0) grazing_origin)))
                  - (length3 grazing_origin - 1 / 4)\<bar>"
    by (simp add: grazing_length SURF_DIST_def)
  moreover have "1 / 4 < length3 grazing_origin \<and> length3 grazing_origin - 1 / 4 < MAX_DIST"
    by (simp add: grazing_length MAX_DIST_def)
  moreover have "SURF_DIST \<le> plane_dist grazing_origin"
    by (simp add: SURF_DIST_def plane_dist_y grazing_origin_def)
  ultimately show ?thesis
    using far grazing_march by blast
qed

lemma march_loop_first_stop:
  assumes "field ro = (t, m)" "t < SURF_DIST"
  shows "march_loop field ro rd (Suc n) 0 m0 = (t, m)"
proof -
  have ro: "vadd ro (vscale rd 0) = ro"
    by (cases ro; cases rd) simp
  show ?thesis
    using assms(2) by (simp add: ro assms(1) Let_def)
qed

text \<open>
  What "the ground plane does not intervene" asks of the ray origin: from half of
  \<open>SURF_DIST\<close> above the plane, straight up towards the sphere, the first sample already
  is within \<open>SURF_DIST\<close> of the plane and the march stops there, with the plane's tag.
\<close>

lemma ray_march_plane_start:
  "(0, 1, 0) = normalize (vsub (0, 0, 0) (0, - (999 / 2000), 0)) \<and>
   plane_dist (0, - (999 / 2000), 0) = 1 / 2000 \<and>
   ray_march (one_sphere_scene (1 / 4)) (0, - (999 / 2000), 0) (0, 1, 0)
     = (1 / 2000, MAT_PLANE)"
proof -
  let ?sc = "one_sphere_scene (1 / 4)"
  have len: "length3 (0, - (999 / 2000), 0) = 999 / 2000"
    by (simp add: length3_axis_y del: length3.simps)
  have pd: "plane_dist (0, - (999 / 2000), 0) = 1 / 2000"
    by (simp add: plane_dist_y)
  have g: "get_dist ?sc (0, - (999 / 2000), 0) = (plane_dist (0, - (999 / 2000), 0), MAT_PLANE)"
    by (rule get_dist_single_sphere_plane [where r = "1 / 4"])
      (simp_all add: one_sphere_scene_def empty_scene_def red_sphere_def len pd MAX_DIST_def
        del: length3.simps)
  have steps: "MAX_STEPS = Suc 255"
    by (simp add: MAX_STEPS_def)
  have "ray_march ?sc (0, - (999 / 2000), 0) (0, 1, 0) = (1 / 2000, MAT_PLANE)"
    unfolding ray_march_def steps
    by (rule march_loop_first_stop) (simp_all add: g pd SURF_DIST_def)
  moreover have "(0, 1, 0) = normalize (vsub (0, 0, 0) (0, - (999 / 2000), 0))"
    unfolding normalize_def by (simp add: length3_axis_y del: length3.simps)
  ultimately show ?thesis
    using pd by simp
qed

end
